theory Spec2Isabelle
  imports Main "HOL-Library.Word"
begin

section \<open>Masternode core of MultiSys: a shallow embedding of masternode.cpp\<close>

text \<open>
  The development follows \<^verbatim>\<open>src/masternode.cpp\<close>. Heights are C \<^verbatim>\<open>int\<close>s and amounts are
  \<^verbatim>\<open>CAmount\<close> (64-bit) values; both are modelled by \<^typ>\<open>int\<close>, all the constants of the
  schedules being far inside the machine ranges. The constant \<^verbatim>\<open>COIN\<close> (the number of
  base units in one coin) is declared in a header that is not shown, so the schedule
  functions take it as their first argument.
\<close>

subsection \<open>Collateral schedule\<close>

text \<open>\<^verbatim>\<open>CMasternode::GetMasternodeNodeCollateral\<close>: a chain of strict comparisons, highest
  threshold first; the first one that holds decides.\<close>

definition GetMasternodeNodeCollateral :: "int \<Rightarrow> int \<Rightarrow> int" where
  "GetMasternodeNodeCollateral COIN nHeight =
    (
     if nHeight > 53000000 then 100000 * COIN else
     if nHeight > 52999999 then 106921 * COIN else
     if nHeight > 51999999 then 112549 * COIN else
     if nHeight > 50999999 then 118472 * COIN else
     if nHeight > 49999999 then 124708 * COIN else
     if nHeight > 48999999 then 131271 * COIN else
     if nHeight > 47999999 then 138180 * COIN else
     if nHeight > 46999999 then 145453 * COIN else
     if nHeight > 45999999 then 153108 * COIN else
     if nHeight > 44999999 then 161166 * COIN else
     if nHeight > 43999999 then 169649 * COIN else
     if nHeight > 42999999 then 178578 * COIN else
     if nHeight > 41999999 then 187977 * COIN else
     if nHeight > 40999999 then 197870 * COIN else
     if nHeight > 39999999 then 208284 * COIN else
     if nHeight > 38999999 then 219247 * COIN else
     if nHeight > 37999999 then 230786 * COIN else
     if nHeight > 36999999 then 242933 * COIN else
     if nHeight > 35999999 then 255719 * COIN else
     if nHeight > 34999999 then 269177 * COIN else
     if nHeight > 33999999 then 283345 * COIN else
     if nHeight > 32999999 then 298258 * COIN else
     if nHeight > 31999999 then 313955 * COIN else
     if nHeight > 30999999 then 330479 * COIN else
     if nHeight > 29999999 then 347873 * COIN else
     if nHeight > 28999999 then 366182 * COIN else
     if nHeight > 27999999 then 385455 * COIN else
     if nHeight > 26999999 then 405742 * COIN else
     if nHeight > 25999999 then 427097 * COIN else
     if nHeight > 24999999 then 449576 * COIN else
     if nHeight > 23999999 then 473237 * COIN else
     if nHeight > 22999999 then 498145 * COIN else
     if nHeight > 21999999 then 524363 * COIN else
     if nHeight > 20999999 then 551961 * COIN else
     if nHeight > 19999999 then 581011 * COIN else
     if nHeight > 18999999 then 611591 * COIN else
     if nHeight > 17999999 then 555992 * COIN else
     if nHeight > 16999999 then 505447 * COIN else
     if nHeight > 15999999 then 459497 * COIN else
     if nHeight > 14999999 then 417725 * COIN else
     if nHeight > 13999999 then 379750 * COIN else
     if nHeight > 12999999 then 345227 * COIN else
     if nHeight > 11999999 then 313843 * COIN else
     if nHeight > 10999999 then 285312 * COIN else
     if nHeight > 9999999 then 259374 * COIN else
     if nHeight > 8999999 then 235795 * COIN else
     if nHeight > 7999999 then 214359 * COIN else
     if nHeight > 6999999 then 194872 * COIN else
     if nHeight > 5999999 then 177156 * COIN else
     if nHeight > 4999999 then 161051 * COIN else
     if nHeight > 3999999 then 146410 * COIN else
     if nHeight > 2999999 then 133100 * COIN else
     if nHeight > 1999999 then 121000 * COIN else
     if nHeight > 999999 then 110000 * COIN else
     if nHeight > 1 then 100000 * COIN else
     0 * COIN)"

subsection \<open>Block subsidy\<close>

text \<open>The local variable \<^verbatim>\<open>nSubsidy\<close> of \<^verbatim>\<open>CMasternode::GetBlockValue\<close>: a chain of
  \<^verbatim>\<open>else if (nHeight <= ...)\<close> tests. The last test of the source,
  \<^verbatim>\<open>nHeight >= 54000000\<close>, is the complement of the one before it, so it is the final
  \<^verbatim>\<open>else\<close> here.\<close>

definition nSubsidy :: "int \<Rightarrow> int \<Rightarrow> int" where
  "nSubsidy COIN nHeight =
    (
     if nHeight = 1 then 400200 * COIN else
     if nHeight \<le> 1000 then 100 * COIN else
     if nHeight \<le> 2700 then 110 * COIN else
     if nHeight \<le> 999999 then 100 * COIN else
     if nHeight \<le> 1999999 then 110 * COIN else
     if nHeight \<le> 2999999 then 121 * COIN else
     if nHeight \<le> 3999999 then 133 * COIN else
     if nHeight \<le> 4999999 then 146 * COIN else
     if nHeight \<le> 5999999 then 161 * COIN else
     if nHeight \<le> 6999999 then 177 * COIN else
     if nHeight \<le> 7999999 then 195 * COIN else
     if nHeight \<le> 8999999 then 214 * COIN else
     if nHeight \<le> 9999999 then 236 * COIN else
     if nHeight \<le> 10999999 then 259 * COIN else
     if nHeight \<le> 11999999 then 285 * COIN else
     if nHeight \<le> 12999999 then 314 * COIN else
     if nHeight \<le> 13999999 then 345 * COIN else
     if nHeight \<le> 14999999 then 380 * COIN else
     if nHeight \<le> 15999999 then 418 * COIN else
     if nHeight \<le> 16999999 then 459 * COIN else
     if nHeight \<le> 17999999 then 505 * COIN else
     if nHeight \<le> 18999999 then 556 * COIN else
     if nHeight \<le> 19999999 then 612 * COIN else
     if nHeight \<le> 20999999 then 581 * COIN else
     if nHeight \<le> 21999999 then 552 * COIN else
     if nHeight \<le> 22999999 then 524 * COIN else
     if nHeight \<le> 23999999 then 498 * COIN else
     if nHeight \<le> 24999999 then 473 * COIN else
     if nHeight \<le> 25999999 then 450 * COIN else
     if nHeight \<le> 26999999 then 427 * COIN else
     if nHeight \<le> 27999999 then 406 * COIN else
     if nHeight \<le> 28999999 then 385 * COIN else
     if nHeight \<le> 29999999 then 366 * COIN else
     if nHeight \<le> 30999999 then 348 * COIN else
     if nHeight \<le> 31999999 then 330 * COIN else
     if nHeight \<le> 32999999 then 314 * COIN else
     if nHeight \<le> 33999999 then 298 * COIN else
     if nHeight \<le> 34999999 then 283 * COIN else
     if nHeight \<le> 35999999 then 269 * COIN else
     if nHeight \<le> 36999999 then 256 * COIN else
     if nHeight \<le> 37999999 then 243 * COIN else
     if nHeight \<le> 38999999 then 231 * COIN else
     if nHeight \<le> 39999999 then 219 * COIN else
     if nHeight \<le> 40999999 then 209 * COIN else
     if nHeight \<le> 41999999 then 198 * COIN else
     if nHeight \<le> 42999999 then 188 * COIN else
     if nHeight \<le> 43999999 then 179 * COIN else
     if nHeight \<le> 44999999 then 170 * COIN else
     if nHeight \<le> 45999999 then 161 * COIN else
     if nHeight \<le> 46999999 then 153 * COIN else
     if nHeight \<le> 47999999 then 145 * COIN else
     if nHeight \<le> 48999999 then 138 * COIN else
     if nHeight \<le> 49999999 then 131 * COIN else
     if nHeight \<le> 50999999 then 125 * COIN else
     if nHeight \<le> 51999999 then 118 * COIN else
     if nHeight \<le> 52999999 then 113 * COIN else
     if nHeight \<le> 53999999 then 107 * COIN else
     100 * COIN)"

text \<open>\<^verbatim>\<open>CMasternode::GetBlockValue\<close>. The consensus parameter \<^verbatim>\<open>nMaxMoneyOut\<close> and the
  current money supply \<^verbatim>\<open>nMoneySupply\<close> are read from the environment by the source and
  are arguments here.\<close>

definition GetBlockValue :: "int \<Rightarrow> int \<Rightarrow> int \<Rightarrow> int \<Rightarrow> int" where
  "GetBlockValue COIN maxMoneyOut nMoneySupply nHeight =
    (if nMoneySupply \<ge> maxMoneyOut then 0
     else if nMoneySupply + nSubsidy COIN nHeight > maxMoneyOut
          then nMoneySupply + nSubsidy COIN nHeight - maxMoneyOut
          else nSubsidy COIN nHeight)"

text \<open>\<^verbatim>\<open>CMasternode::GetMasternodePayment\<close>; C++ division of the non-negative product
  truncates, as \<open>div\<close> does on non-negative integers.\<close>

definition GetMasternodePayment :: "int \<Rightarrow> int \<Rightarrow> int \<Rightarrow> int \<Rightarrow> int" where
  "GetMasternodePayment COIN maxMoneyOut nMoneySupply nHeight =
    (if nHeight > 1000 then GetBlockValue COIN maxMoneyOut nMoneySupply nHeight * 85 div 100
     else 0)"

subsection \<open>Collateral transition list\<close>

text \<open>\<^verbatim>\<open>CMasternode::InitMasternodeCollateralList\<close>: the loop
  \<^verbatim>\<open>for (int i = 0; i < 9999999; i++)\<close> with its local \<^verbatim>\<open>prev\<close> and the global vector
  \<^verbatim>\<open>vecCollaterals\<close> it appends to, as a recursive function on the loop counter.\<close>

function InitLoop :: "int \<Rightarrow> int \<Rightarrow> int \<Rightarrow> (int \<times> int) list \<Rightarrow> (int \<times> int) list" where
  "InitLoop COIN i prev vecCollaterals =
    (if i < 9999999 then
       (let c = GetMasternodeNodeCollateral COIN i in
        if prev \<noteq> c then InitLoop COIN (i + 1) c (vecCollaterals @ [(i, c)])
        else InitLoop COIN (i + 1) prev vecCollaterals)
     else vecCollaterals)"
  by pat_completeness auto
termination
  by (relation "measure (\<lambda>(COIN, i, prev, vec). nat (9999999 - i))") auto

declare InitLoop.simps [simp del]

definition InitMasternodeCollateralList :: "int \<Rightarrow> (int \<times> int) list \<Rightarrow> (int \<times> int) list" where
  "InitMasternodeCollateralList COIN vecCollaterals = InitLoop COIN 0 (- 1) vecCollaterals"

text \<open>\<^verbatim>\<open>CMasternode::GetNextMasternodeCollateral\<close>: the first pair of the vector whose
  height is above \<^verbatim>\<open>nHeight\<close>, or the pair \<open>(-1, -1)\<close>.\<close>

fun GetNextMasternodeCollateral :: "(int \<times> int) list \<Rightarrow> int \<Rightarrow> int \<times> int" where
  "GetNextMasternodeCollateral [] nHeight = (- 1, - 1)"
| "GetNextMasternodeCollateral (p # ps) nHeight =
    (if fst p > nHeight then (fst p - nHeight, snd p)
     else GetNextMasternodeCollateral ps nHeight)"

subsection \<open>Data model\<close>

text \<open>The classes of \<^verbatim>\<open>masternode.cpp\<close> as records. \<^verbatim>\<open>COutPoint\<close> has the members \<^verbatim>\<open>hash\<close>
  and \<^verbatim>\<open>n\<close>, \<^verbatim>\<open>CMasternodePing\<close> and \<^verbatim>\<open>CMasternode\<close> both have \<^verbatim>\<open>vin\<close>, \<^verbatim>\<open>sigTime\<close>,
  \<^verbatim>\<open>vchSig\<close> and \<^verbatim>\<open>nMessVersion\<close>; the fields of the outpoint and of the ping carry a
  prefix here to keep the names apart. \<^verbatim>\<open>CMasternodeBroadcast\<close> derives from
  \<^verbatim>\<open>CMasternode\<close> and adds no member.\<close>

type_synonym uint256 = "256 word"
type_synonym bytes = "8 word list"
type_synonym CPubKey = bytes
type_synonym CKey = bytes

datatype MessageVersion = MESS_VER_STRMESS | MESS_VER_HASH

record COutPoint =
  prevout_hash :: uint256
  prevout_n :: "32 word"

record CTxIn =
  prevout :: COutPoint
  scriptSig :: bytes
  nSequence :: "32 word"

record CService =
  GetHost :: bytes
  GetPort :: nat

record CBlockIndex =
  nHeight :: int
  GetBlockHash_of :: uint256
  GetBlockTime :: int

text \<open>Modelled from the spec: the enumeration of the lifecycle states is declared in
  \<^verbatim>\<open>masternode.h\<close>, which is not among the sources; the five states are those of section 3.5
  of the specification, under the names \<^verbatim>\<open>masternode.cpp\<close> uses for them.\<close>

datatype MasternodeState =
  MASTERNODE_PRE_ENABLED | MASTERNODE_ENABLED | MASTERNODE_EXPIRED | MASTERNODE_REMOVE
  | MASTERNODE_VIN_SPENT

record CMasternodePing =
  mnp_vin :: CTxIn
  blockHash :: uint256
  mnp_sigTime :: int
  mnp_vchSig :: bytes
  mnp_nMessVersion :: MessageVersion

record CMasternode =
  vin :: CTxIn
  addr :: CService
  pubKeyCollateralAddress :: CPubKey
  pubKeyMasternode :: CPubKey
  activeState :: MasternodeState
  sigTime :: int
  lastPing :: CMasternodePing
  unitTest :: bool
  allowFreeTx :: bool
  protocolVersion :: int
  nLastDsq :: int
  nScanningErrorCount :: int
  nLastScanningErrorBlockHeight :: int
  lastTimeChecked :: int
  vchSig :: bytes
  nMessVersion :: MessageVersion

type_synonym CMasternodeBroadcast = CMasternode

text \<open>The copy constructor \<^verbatim>\<open>CMasternode(const CMasternode& other)\<close> copies every member
  but \<^verbatim>\<open>lastTimeChecked\<close>, which it sets to 0.\<close>

definition CMasternode_copy :: "CMasternode \<Rightarrow> CMasternode" where
  "CMasternode_copy other = other\<lparr>lastTimeChecked := 0\<rparr>"

text \<open>What is streamed into a \<^verbatim>\<open>CHashWriter\<close>, item by item.\<close>

datatype ser_item =
  SER_uint256 uint256 | SER_int64 int | SER_int int | SER_pubkey CPubKey | SER_txin CTxIn
  | SER_service CService | SER_version MessageVersion | SER_string string

datatype CInv = MSG_MASTERNODE_ANNOUNCE uint256 | MSG_MASTERNODE_PING uint256

subsection \<open>Collaborators and mutable state\<close>

text \<open>Everything \<^verbatim>\<open>masternode.cpp\<close> reads from other translation units during one call is a
  field of the record \<open>env\<close>: clocks, chain parameters, the active chain (the tip first,
  each block followed by its \<^verbatim>\<open>pprev\<close>), the block index, the mempool's acceptance
  predicate, the cryptographic primitives, and the inline member functions that
  \<^verbatim>\<open>masternode.h\<close> defines (\<^verbatim>\<open>IsNull\<close>, \<^verbatim>\<open>IsPingedWithin\<close>, \<^verbatim>\<open>IsBroadcastedWithin\<close>,
  \<^verbatim>\<open>CSignedMessage::CheckSignature\<close>). The outcome of \<^verbatim>\<open>TRY_LOCK(cs_main, lockMain)\<close> is the
  field \<open>lockMain\<close>. Theorems quantify over the whole record, so they hold whatever
  these collaborators answer. Where the source leaves a defaulted argument out, the model
  passes the default of the declaration: \<^verbatim>\<open>now = -1\<close> for \<^verbatim>\<open>IsPingedWithin\<close>,
  \<^verbatim>\<open>forceCheck = false\<close> for \<^verbatim>\<open>Check\<close>, and \<^verbatim>\<open>fCheckSigTimeOnly = false\<close> for
  \<^verbatim>\<open>CMasternodePing::CheckAndUpdate\<close>.\<close>

record env =
  coin :: int
  GetAdjustedTime :: int
  GetTime :: int
  ShutdownRequested :: bool
  ActiveProtocol :: int
  PROTOCOL_VERSION :: int
  MIN_PEER_MNANNOUNCE :: int
  GetDefaultPort :: nat
  IsRegTestNet :: bool
  lockMain :: bool
  chainActive :: "CBlockIndex list"
  mapBlockIndex :: "uint256 \<Rightarrow> CBlockIndex option"
  AcceptableInputs :: "CTxIn \<Rightarrow> int \<Rightarrow> CPubKey \<Rightarrow> bool"
  IsInvalid :: "CTxIn \<Rightarrow> int \<Rightarrow> CPubKey \<Rightarrow> int option"
  GetCoinDepthAtHeight :: "COutPoint \<Rightarrow> int \<Rightarrow> int"
  GetTransaction :: "uint256 \<Rightarrow> uint256 option"
  ScriptForDestination_size :: "CPubKey \<Rightarrow> nat"
  VerifyMessage :: "CPubKey \<Rightarrow> bytes \<Rightarrow> string \<Rightarrow> bool"
  SignMessage :: "string \<Rightarrow> CKey \<Rightarrow> bytes option"
  SignCompact :: "CKey \<Rightarrow> uint256 \<Rightarrow> bytes option"
  CHashWriter :: "ser_item list \<Rightarrow> uint256"
  GetHex :: "uint256 \<Rightarrow> string"
  Service_ToString :: "CService \<Rightarrow> string"
  to_string :: "int \<Rightarrow> string"
  GetID_ToString :: "CPubKey \<Rightarrow> string"
  strMessageMagic :: string
  NetworkUpgradeActive_V2 :: "int \<Rightarrow> bool"
  mnp_CheckSignature :: "CMasternodePing \<Rightarrow> CPubKey \<Rightarrow> bool"
  mnp_IsNull :: "CMasternodePing \<Rightarrow> bool"
  IsPingedWithin :: "CMasternode \<Rightarrow> int \<Rightarrow> int \<Rightarrow> bool"
  IsBroadcastedWithin :: "CMasternode \<Rightarrow> int \<Rightarrow> bool"
  fMasterNode :: bool
  activeMasternode_vin :: "CTxIn option"
  activeMasternode_pubKeyMasternode :: CPubKey
  IsRFC1918 :: "CService \<Rightarrow> bool"
  IsLocal :: "CService \<Rightarrow> bool"
  mBurnAddresses :: "(string \<times> int) list"
  EncodeDestination :: "CPubKey \<Rightarrow> string"
  SPORK_103_PING_MESSAGE_SALT :: int

text \<open>The globals the functions write: the registry \<^verbatim>\<open>mnodeman\<close> with its two caches of
  seen messages, the cache \<^verbatim>\<open>mapCacheBlockHashes\<close>, the sync bookkeeping, and what was
  handed to the network (\<^verbatim>\<open>RelayInv\<close>) and to the local active masternode.\<close>

record node =
  vMasternodes :: "COutPoint \<Rightarrow> CMasternode option"
  mapSeenMasternodePing :: "uint256 \<Rightarrow> CMasternodePing option"
  mapSeenMasternodeBroadcast :: "uint256 \<Rightarrow> CMasternodeBroadcast option"
  mapSeenSyncMNB :: "uint256 \<Rightarrow> int option"
  mapCacheBlockHashes :: "int \<Rightarrow> uint256 option"
  relayed :: "CInv list"
  addedMasternodeList :: "uint256 list"
  hotColdEnabled :: "(CTxIn \<times> CService) list"

text \<open>Modelled from the spec: the registry operations of \<^verbatim>\<open>CMasternodeMan\<close>
  (\<^verbatim>\<open>masternodeman.cpp\<close> is not among the sources), after section 4.2 of the specification:
  \<open>find(outpoint)\<close> returns the record of that outpoint if there is one, \<open>remove(outpoint)\<close>
  deletes it, \<open>add(record)\<close> inserts and fails if the outpoint is already present. The
  registry holds at most one record per collateral outpoint, so it is a map from
  outpoints; \<^verbatim>\<open>push_back\<close> copy-constructs the stored record.\<close>

definition Find :: "node \<Rightarrow> CTxIn \<Rightarrow> CMasternode option" where
  "Find st txin = vMasternodes st (prevout txin)"

definition Remove :: "node \<Rightarrow> CTxIn \<Rightarrow> node" where
  "Remove st txin = st\<lparr>vMasternodes := (vMasternodes st)(prevout txin := None)\<rparr>"

definition Add :: "node \<Rightarrow> CMasternode \<Rightarrow> node" where
  "Add st mn =
    (case vMasternodes st (prevout (vin mn)) of
       None \<Rightarrow> st\<lparr>vMasternodes := (vMasternodes st)(prevout (vin mn) \<mapsto> CMasternode_copy mn)\<rparr>
     | Some existing \<Rightarrow> st)"

text \<open>A write through the pointer \<^verbatim>\<open>pmn\<close> that \<^verbatim>\<open>Find\<close> returned: the record stored
  under that outpoint is replaced.\<close>

definition store :: "node \<Rightarrow> CTxIn \<Rightarrow> CMasternode \<Rightarrow> node" where
  "store st txin mn = st\<lparr>vMasternodes := (vMasternodes st)(prevout txin \<mapsto> mn)\<rparr>"

text \<open>Modelled from the spec: the timing constants of \<^verbatim>\<open>masternode.h\<close> (not among the
  sources), with the values of section 3.6 of the specification, in seconds.\<close>

definition MASTERNODE_CHECK_SECONDS :: int where "MASTERNODE_CHECK_SECONDS = 5"
definition MASTERNODE_MIN_MNP_SECONDS :: int where "MASTERNODE_MIN_MNP_SECONDS = 10 * 60"
definition MASTERNODE_MIN_MNB_SECONDS :: int where "MASTERNODE_MIN_MNB_SECONDS = 5 * 60"
definition MASTERNODE_EXPIRATION_SECONDS :: int where "MASTERNODE_EXPIRATION_SECONDS = 65 * 60"
definition MASTERNODE_REMOVAL_SECONDS :: int where "MASTERNODE_REMOVAL_SECONDS = 75 * 60"
definition MASTERNODE_MIN_CONFIRMATIONS :: int where "MASTERNODE_MIN_CONFIRMATIONS = 15"

text \<open>Modelled from the spec: \<^verbatim>\<open>CMasternode::IsEnabled\<close> is an inline member of
  \<^verbatim>\<open>masternode.h\<close>; a record is enabled when its state is \<open>Enabled\<close> (section 3.5).\<close>

definition IsEnabled :: "CMasternode \<Rightarrow> bool" where
  "IsEnabled mn = (activeState mn = MASTERNODE_ENABLED)"

text \<open>\<^verbatim>\<open>chainActive.Height()\<close>, \<^verbatim>\<open>chainActive[h]\<close> and \<^verbatim>\<open>chainActive.Contains(pindex)\<close> on
  the chain kept tip first; the height of an empty chain is -1.\<close>

definition Height :: "env \<Rightarrow> int" where
  "Height e = (case chainActive e of [] \<Rightarrow> - 1 | tip # rest \<Rightarrow> nHeight tip)"

definition chainActive_at :: "env \<Rightarrow> int \<Rightarrow> CBlockIndex option" where
  "chainActive_at e h = find (\<lambda>b. nHeight b = h) (chainActive e)"

definition Contains :: "env \<Rightarrow> CBlockIndex \<Rightarrow> bool" where
  "Contains e pindex = (chainActive_at e (nHeight pindex) = Some pindex)"

subsection \<open>Block hash lookup and scoring\<close>

text \<open>The loop of \<^verbatim>\<open>GetBlockHash\<close>: \<^verbatim>\<open>BlockReading\<close> walks from the tip along \<^verbatim>\<open>pprev\<close>
  while the block's height is positive; it returns the hash of the block reached when
  the step counter \<open>n\<close> has come up to \<^verbatim>\<open>nBlocksAgo\<close>, and fails when \<^verbatim>\<open>pprev\<close> is null.\<close>

fun walk_back :: "CBlockIndex list \<Rightarrow> int \<Rightarrow> int \<Rightarrow> uint256 option" where
  "walk_back [] n nBlocksAgo = None"
| "walk_back (BlockReading # pprev) n nBlocksAgo =
    (if nHeight BlockReading > 0 then
       (if n \<ge> nBlocksAgo then Some (GetBlockHash_of BlockReading)
        else walk_back pprev (n + 1) nBlocksAgo)
     else None)"

text \<open>\<^verbatim>\<open>GetBlockHash(hash, nBlockHeight)\<close>: \<open>None\<close> is the return value \<^verbatim>\<open>false\<close>; the second
  component is the state with the cache \<^verbatim>\<open>mapCacheBlockHashes\<close> as the call leaves it.\<close>

definition GetBlockHash :: "env \<Rightarrow> node \<Rightarrow> int \<Rightarrow> uint256 option \<times> node" where
  "GetBlockHash e st nBlockHeight =
    (case chainActive e of
       [] \<Rightarrow> (None, st)
     | tipIndex # rest \<Rightarrow>
         if nHeight tipIndex = 0 then (None, st)
         else
           let nBlockHeight = (if nBlockHeight = 0 then nHeight tipIndex else nBlockHeight) in
           (case mapCacheBlockHashes st nBlockHeight of
              Some hash \<Rightarrow> (Some hash, st)
            | None \<Rightarrow>
                let nBlocksAgo =
                      (if nBlockHeight > 0 then (nHeight tipIndex + 1) - nBlockHeight else 0) in
                if nBlocksAgo < 0 then (None, st)
                else
                  (case walk_back (tipIndex # rest) 0 nBlocksAgo of
                     None \<Rightarrow> (None, st)
                   | Some hash \<Rightarrow>
                       (Some hash,
                        st\<lparr>mapCacheBlockHashes :=
                             (mapCacheBlockHashes st)(nBlockHeight \<mapsto> hash)\<rparr>))))"

text \<open>\<^verbatim>\<open>CalculateScore\<close> takes its height as \<^verbatim>\<open>int64_t\<close> and passes it to the \<^verbatim>\<open>int\<close>
  parameter of \<^verbatim>\<open>GetBlockHash\<close>: the conversion keeps the low 32 bits, read as two's
  complement.\<close>

definition int64_to_int :: "int \<Rightarrow> int" where
  "int64_to_int x = sint (word_of_int x :: 32 word)"

text \<open>\<^verbatim>\<open>CMasternode::CalculateScore(mod, nBlockHeight)\<close>; the argument \<^verbatim>\<open>mod\<close> is not used. \<^verbatim>\<open>aux\<close> is the 256-bit sum of the
  outpoint's transaction hash and its output index; \<^verbatim>\<open>hash2\<close> hashes the block hash,
  \<^verbatim>\<open>hash3\<close> the block hash followed by \<^verbatim>\<open>aux\<close>. The hash function of \<^verbatim>\<open>CHashWriter\<close> is the
  collaborator \<open>CHashWriter e\<close>.\<close>

definition CalculateScore :: "env \<Rightarrow> CMasternode \<Rightarrow> int \<Rightarrow> int \<Rightarrow> node \<Rightarrow> uint256 \<times> node" where
  "CalculateScore e mn modulus nBlockHeight st =
    (if chainActive e = [] then (0, st)
     else
       let aux = prevout_hash (prevout (vin mn)) + ucast (prevout_n (prevout (vin mn))) in
       (case GetBlockHash e st (int64_to_int nBlockHeight) of
          (None, st') \<Rightarrow> (0, st')
        | (Some hash, st') \<Rightarrow>
            let hash2 = CHashWriter e [SER_uint256 hash];
                hash3 = CHashWriter e [SER_uint256 hash, SER_uint256 aux];
                r = (if hash3 > hash2 then hash3 - hash2 else hash2 - hash3)
            in (r, st')))"

subsection \<open>Record check\<close>

text \<open>The value of the output of the synthetic transaction,
  \<^verbatim>\<open>GetMasternodeNodeCollateral(chainActive.Height()) - 0.01 * COIN\<close>. The source computes
  the difference in floating point; one hundredth of \<^verbatim>\<open>COIN\<close> is written as an integer
  quotient here. The value is only handed to \<open>AcceptableInputs\<close>.\<close>

definition collateral_output_value :: "env \<Rightarrow> int" where
  "collateral_output_value e = GetMasternodeNodeCollateral (coin e) (Height e) - coin e div 100"

text \<open>\<^verbatim>\<open>CMasternode::Check(forceCheck)\<close>, returning the record as the call leaves it. Every
  \<^verbatim>\<open>return\<close> of the source is a branch.\<close>

definition Check :: "env \<Rightarrow> bool \<Rightarrow> CMasternode \<Rightarrow> CMasternode" where
  "Check e forceCheck mn =
    (if ShutdownRequested e then mn
     else if \<not> forceCheck \<and> GetTime e - lastTimeChecked mn < MASTERNODE_CHECK_SECONDS then mn
     else
       let mn = mn\<lparr>lastTimeChecked := GetTime e\<rparr> in
       if activeState mn = MASTERNODE_VIN_SPENT then mn
       else if \<not> IsPingedWithin e mn MASTERNODE_REMOVAL_SECONDS (- 1)
         then mn\<lparr>activeState := MASTERNODE_REMOVE\<rparr>
       else if \<not> IsPingedWithin e mn MASTERNODE_EXPIRATION_SECONDS (- 1)
         then mn\<lparr>activeState := MASTERNODE_EXPIRED\<rparr>
       else if mnp_sigTime (lastPing mn) - sigTime mn < MASTERNODE_MIN_MNP_SECONDS
         then mn\<lparr>activeState := MASTERNODE_PRE_ENABLED\<rparr>
       else if \<not> unitTest mn then
         (if \<not> lockMain e then mn
          else if \<not> AcceptableInputs e (vin mn) (collateral_output_value e)
                     (pubKeyCollateralAddress mn)
            then mn\<lparr>activeState := MASTERNODE_VIN_SPENT\<rparr>
          else if mBurnAddresses e \<noteq> [] \<and>
                  (case map_of (mBurnAddresses e) (EncodeDestination e (pubKeyCollateralAddress mn)) of
                     None \<Rightarrow> False
                   | Some burnHeight \<Rightarrow> burnHeight < Height e)
            then mn\<lparr>activeState := MASTERNODE_VIN_SPENT\<rparr>
          else mn\<lparr>activeState := MASTERNODE_ENABLED\<rparr>)
       else mn\<lparr>activeState := MASTERNODE_ENABLED\<rparr>)"

subsection \<open>Message hashes and signatures\<close>

definition GetSignatureHash :: "env \<Rightarrow> CMasternode \<Rightarrow> uint256" where
  "GetSignatureHash e mn =
    CHashWriter e [SER_version (nMessVersion mn), SER_service (addr mn), SER_int64 (sigTime mn),
      SER_pubkey (pubKeyCollateralAddress mn), SER_pubkey (pubKeyMasternode mn),
      SER_int (protocolVersion mn)]"

definition GetStrMessage :: "env \<Rightarrow> CMasternode \<Rightarrow> string" where
  "GetStrMessage e mn =
    Service_ToString e (addr mn) @ to_string e (sigTime mn)
    @ GetID_ToString e (pubKeyCollateralAddress mn) @ GetID_ToString e (pubKeyMasternode mn)
    @ to_string e (protocolVersion mn)"

definition GetOldStrMessage :: "env \<Rightarrow> CMasternodeBroadcast \<Rightarrow> string" where
  "GetOldStrMessage e mnb =
    Service_ToString e (addr mnb) @ to_string e (sigTime mnb)
    @ map (\<lambda>b. char_of (unat b)) (pubKeyCollateralAddress mnb)
    @ map (\<lambda>b. char_of (unat b)) (pubKeyMasternode mnb)
    @ to_string e (protocolVersion mnb)"

definition mnb_GetHash :: "env \<Rightarrow> CMasternodeBroadcast \<Rightarrow> uint256" where
  "mnb_GetHash e mnb =
    CHashWriter e [SER_int64 (sigTime mnb), SER_pubkey (pubKeyCollateralAddress mnb)]"

definition mnp_GetHash :: "env \<Rightarrow> CMasternodePing \<Rightarrow> uint256" where
  "mnp_GetHash e mnp =
    CHashWriter e
      ([SER_txin (mnp_vin mnp)]
       @ (if mnp_nMessVersion mnp = MESS_VER_HASH then [SER_uint256 (blockHash mnp)] else [])
       @ [SER_int64 (mnp_sigTime mnp)]
       @ (if SPORK_103_PING_MESSAGE_SALT e > 0 then [SER_int64 (SPORK_103_PING_MESSAGE_SALT e)]
          else []))"

text \<open>\<^verbatim>\<open>CMasternodeBroadcast::Sign(key, pubKey)\<close>: the return value and the broadcast as the
  call leaves it. A signing primitive that fails yields \<open>None\<close> and leaves \<^verbatim>\<open>vchSig\<close> as it
  was.\<close>

definition Sign :: "env \<Rightarrow> CKey \<Rightarrow> CPubKey \<Rightarrow> CMasternodeBroadcast \<Rightarrow> bool \<times> CMasternodeBroadcast" where
  "Sign e key pubKey mnb0 =
    (let mnb = mnb0\<lparr>sigTime := GetAdjustedTime e\<rparr> in
     if NetworkUpgradeActive_V2 e (Height e) then
       (let mnb = mnb\<lparr>nMessVersion := MESS_VER_HASH\<rparr>;
            strMessage = GetHex e (GetSignatureHash e mnb) in
        case SignMessage e strMessage key of
          None \<Rightarrow> (False, mnb)
        | Some sig \<Rightarrow>
            let mnb = mnb\<lparr>vchSig := sig\<rparr> in
            if \<not> VerifyMessage e pubKey (vchSig mnb) strMessage then (False, mnb)
            else (True, mnb))
     else
       (let mnb = mnb\<lparr>nMessVersion := MESS_VER_STRMESS\<rparr>;
            strMessage = GetOldStrMessage e mnb;
            ss = CHashWriter e [SER_string (strMessageMagic e), SER_string strMessage] in
        case SignCompact e key ss of
          None \<Rightarrow> (False, mnb)
        | Some sig \<Rightarrow> (True, mnb\<lparr>vchSig := sig\<rparr>)))"

text \<open>\<^verbatim>\<open>CMasternodeBroadcast::CheckSignature\<close>: the signature must verify against the old
  or the new message text.\<close>

definition mnb_CheckSignature :: "env \<Rightarrow> CMasternodeBroadcast \<Rightarrow> bool" where
  "mnb_CheckSignature e mnb =
    (let strMessage = (if nMessVersion mnb = MESS_VER_HASH then GetHex e (GetSignatureHash e mnb)
                       else GetStrMessage e mnb);
         oldStrMessage = (if nMessVersion mnb = MESS_VER_HASH
                          then GetHex e (GetSignatureHash e mnb)
                          else GetOldStrMessage e mnb) in
     \<not> (\<not> VerifyMessage e (pubKeyCollateralAddress mnb) (vchSig mnb) oldStrMessage \<and>
        \<not> VerifyMessage e (pubKeyCollateralAddress mnb) (vchSig mnb) strMessage))"

subsection \<open>Heartbeat admission\<close>

text \<open>The functions that admit messages return \<^verbatim>\<open>bool\<close> and write the misbehaviour score
  through the reference \<^verbatim>\<open>nDos\<close>. Here each returns the \<^verbatim>\<open>return\<close> statement it left
  through (a constructor per statement, in the order of the source), the value of
  \<^verbatim>\<open>nDos\<close> at that moment and the state; \<open>ping_returns\<close> gives the boolean the
  source returns there.\<close>

datatype ping_exit =
    PING_SIGTIME_FUTURE | PING_SIGTIME_PAST | PING_SIGTIME_ONLY_BAD_SIGNATURE
  | PING_SIGTIME_ONLY_OK | PING_REQUIRE_ENABLED | PING_BAD_SIGNATURE | PING_BLOCK_NOT_ON_DISK
  | PING_BLOCK_TOO_OLD | PING_NOT_ENABLED_AFTER_CHECK | PING_ACCEPTED | PING_TOO_EARLY
  | PING_NO_COMPATIBLE_MASTERNODE

fun ping_returns :: "ping_exit \<Rightarrow> bool" where
  "ping_returns PING_SIGTIME_ONLY_OK = True"
| "ping_returns PING_ACCEPTED = True"
| "ping_returns other = False"

definition mnp_Relay :: "env \<Rightarrow> CMasternodePing \<Rightarrow> node \<Rightarrow> node" where
  "mnp_Relay e mnp st = st\<lparr>relayed := relayed st @ [MSG_MASTERNODE_PING (mnp_GetHash e mnp)]\<rparr>"

text \<open>\<^verbatim>\<open>CMasternodePing::CheckAndUpdate(nDos, fRequireEnabled, fCheckSigTimeOnly)\<close>.\<close>

definition mnp_CheckAndUpdate ::
  "env \<Rightarrow> CMasternodePing \<Rightarrow> int \<Rightarrow> bool \<Rightarrow> bool \<Rightarrow> node \<Rightarrow> ping_exit \<times> int \<times> node" where
  "mnp_CheckAndUpdate e mnp nDos fRequireEnabled fCheckSigTimeOnly st =
    (if mnp_sigTime mnp > GetAdjustedTime e + 60 * 60 then (PING_SIGTIME_FUTURE, 1, st)
     else if mnp_sigTime mnp \<le> GetAdjustedTime e - 60 * 60 then (PING_SIGTIME_PAST, 1, st)
     else
       let pmn = Find st (mnp_vin mnp);
           isMasternodeFound = (pmn \<noteq> None);
           isSignatureValid =
             (case pmn of None \<Rightarrow> False
              | Some mn \<Rightarrow> mnp_CheckSignature e mnp (pubKeyMasternode mn)) in
       if fCheckSigTimeOnly then
         (if isMasternodeFound \<and> \<not> isSignatureValid
          then (PING_SIGTIME_ONLY_BAD_SIGNATURE, 33, st)
          else (PING_SIGTIME_ONLY_OK, nDos, st))
       else
         (case pmn of
            None \<Rightarrow> (PING_NO_COMPATIBLE_MASTERNODE, nDos, st)
          | Some mn \<Rightarrow>
              if protocolVersion mn \<ge> ActiveProtocol e then
                (if fRequireEnabled \<and> \<not> IsEnabled mn then (PING_REQUIRE_ENABLED, nDos, st)
                 else if \<not> IsPingedWithin e mn (MASTERNODE_MIN_MNP_SECONDS - 60) (mnp_sigTime mnp)
                 then
                   (if \<not> isSignatureValid then (PING_BAD_SIGNATURE, 33, st)
                    else
                      (case mapBlockIndex e (blockHash mnp) of
                         None \<Rightarrow> (PING_BLOCK_NOT_ON_DISK, nDos, st)
                       | Some mi \<Rightarrow>
                           if \<not> Contains e mi \<or> Height e - nHeight mi > 24
                           then (PING_BLOCK_TOO_OLD, nDos, st)
                           else
                             let mn1 = mn\<lparr>lastPing := mnp\<rparr>;
                                 hash = mnb_GetHash e (CMasternode_copy mn1);
                                 seen =
                                   (case mapSeenMasternodeBroadcast st hash of
                                      None \<Rightarrow> mapSeenMasternodeBroadcast st
                                    | Some mnb \<Rightarrow>
                                        (mapSeenMasternodeBroadcast st)
                                          (hash \<mapsto> mnb\<lparr>lastPing := mnp\<rparr>));
                                 mn2 = Check e True mn1;
                                 st1 = (store st (mnp_vin mnp) mn2)
                                         \<lparr>mapSeenMasternodeBroadcast := seen\<rparr> in
                             if \<not> IsEnabled mn2 then (PING_NOT_ENABLED_AFTER_CHECK, nDos, st1)
                             else (PING_ACCEPTED, nDos, mnp_Relay e mnp st1)))
                 else (PING_TOO_EARLY, nDos, st))
              else (PING_NO_COMPATIBLE_MASTERNODE, nDos, st)))"

subsection \<open>Announcement admission\<close>

text \<open>\<^verbatim>\<open>CMasternode::UpdateFromNewBroadcast(mnb)\<close>, called on the record that \<^verbatim>\<open>Find\<close>
  returned for the input \<open>txin\<close>. The embedded ping is checked with
  \<^verbatim>\<open>CheckAndUpdate(nDoS, false)\<close>, which may itself write to the registry; the assignment to
  \<^verbatim>\<open>lastPing\<close> that follows goes to the record as that call left it.\<close>

definition UpdateFromNewBroadcast :: "env \<Rightarrow> CTxIn \<Rightarrow> CMasternodeBroadcast \<Rightarrow> node \<Rightarrow> bool \<times> node" where
  "UpdateFromNewBroadcast e txin mnb st =
    (case Find st txin of
       None \<Rightarrow> (False, st)
     | Some pmn \<Rightarrow>
         if sigTime mnb > sigTime pmn then
           let pmn1 = pmn\<lparr>pubKeyMasternode := pubKeyMasternode mnb,
                           pubKeyCollateralAddress := pubKeyCollateralAddress mnb,
                           sigTime := sigTime mnb,
                           vchSig := vchSig mnb,
                           protocolVersion := protocolVersion mnb,
                           addr := addr mnb,
                           lastTimeChecked := 0\<rparr>;
               st1 = store st txin pmn1;
               st2 = (if mnp_IsNull e (lastPing mnb) then st1
                      else snd (snd (mnp_CheckAndUpdate e (lastPing mnb) 0 False False st1)));
               accepted = (mnp_IsNull e (lastPing mnb) \<or>
                           ping_returns (fst (mnp_CheckAndUpdate e (lastPing mnb) 0 False False st1)))
           in
           if accepted then
             (case Find st2 txin of
                None \<Rightarrow> (True, st2)
              | Some pmn2 \<Rightarrow>
                  let st3 = store st2 txin (pmn2\<lparr>lastPing := lastPing mnb\<rparr>);
                      hash = mnp_GetHash e (lastPing mnb) in
                  (True,
                   (case mapSeenMasternodePing st3 hash of
                      None \<Rightarrow> st3\<lparr>mapSeenMasternodePing :=
                                   (mapSeenMasternodePing st3)(hash \<mapsto> lastPing mnb)\<rparr>
                    | Some seen \<Rightarrow> st3)))
           else (True, st2)
         else (False, st))"

datatype mnb_exit =
    MNB_SIGTIME_FUTURE | MNB_BAD_PING | MNB_OUTDATED_PROTOCOL | MNB_PUBKEY_WRONG_SIZE
  | MNB_PUBKEY2_WRONG_SIZE | MNB_SCRIPTSIG_NOT_EMPTY | MNB_BAD_SIGNATURE | MNB_INVALID_PORT
  | MNB_NO_SUCH_MASTERNODE | MNB_BAD_SIGTIME | MNB_NOT_ENABLED | MNB_DONE

fun mnb_returns :: "mnb_exit \<Rightarrow> bool" where
  "mnb_returns MNB_NO_SUCH_MASTERNODE = True"
| "mnb_returns MNB_NOT_ENABLED = True"
| "mnb_returns MNB_DONE = True"
| "mnb_returns other = False"

definition mnb_Relay :: "env \<Rightarrow> CMasternodeBroadcast \<Rightarrow> node \<Rightarrow> node" where
  "mnb_Relay e mnb st = st\<lparr>relayed := relayed st @ [MSG_MASTERNODE_ANNOUNCE (mnb_GetHash e mnb)]\<rparr>"

text \<open>\<^verbatim>\<open>CMasternodeBroadcast::CheckAndUpdate(nDos)\<close>.\<close>

definition mnb_CheckAndUpdate ::
  "env \<Rightarrow> CMasternodeBroadcast \<Rightarrow> int \<Rightarrow> node \<Rightarrow> mnb_exit \<times> int \<times> node" where
  "mnb_CheckAndUpdate e mnb nDos st =
    (if sigTime mnb > GetAdjustedTime e + 60 * 60 then (MNB_SIGTIME_FUTURE, 1, st)
     else if mnp_IsNull e (lastPing mnb) then (MNB_BAD_PING, nDos, st)
     else
       (case mnp_CheckAndUpdate e (lastPing mnb) nDos False True st of
          (ping, nDos, st) \<Rightarrow>
            if \<not> ping_returns ping then (MNB_BAD_PING, nDos, st)
            else if protocolVersion mnb < ActiveProtocol e then (MNB_OUTDATED_PROTOCOL, nDos, st)
            else if ScriptForDestination_size e (pubKeyCollateralAddress mnb) \<noteq> 25
              then (MNB_PUBKEY_WRONG_SIZE, 100, st)
            else if ScriptForDestination_size e (pubKeyMasternode mnb) \<noteq> 25
              then (MNB_PUBKEY2_WRONG_SIZE, 100, st)
            else if scriptSig (vin mnb) \<noteq> [] then (MNB_SCRIPTSIG_NOT_EMPTY, nDos, st)
            else if \<not> mnb_CheckSignature e mnb
              then (MNB_BAD_SIGNATURE,
                    (if protocolVersion mnb \<le> MIN_PEER_MNANNOUNCE e then 0 else 100), st)
            else if GetPort (addr mnb) \<noteq> GetDefaultPort e then (MNB_INVALID_PORT, nDos, st)
            else
              (case Find st (vin mnb) of
                 None \<Rightarrow> (MNB_NO_SUCH_MASTERNODE, nDos, st)
               | Some pmn \<Rightarrow>
                   if sigTime pmn \<ge> sigTime mnb then (MNB_BAD_SIGTIME, nDos, st)
                   else if \<not> IsEnabled pmn then (MNB_NOT_ENABLED, nDos, st)
                   else if pubKeyCollateralAddress pmn = pubKeyCollateralAddress mnb \<and>
                           \<not> IsBroadcastedWithin e pmn MASTERNODE_MIN_MNB_SECONDS
                   then
                     (case UpdateFromNewBroadcast e (vin mnb) mnb st of
                        (updated, st1) \<Rightarrow>
                          let st2 =
                                (if updated then
                                   (case Find st1 (vin mnb) of
                                      None \<Rightarrow> st1
                                    | Some pmn1 \<Rightarrow>
                                        let pmn2 = Check e False pmn1;
                                            st' = store st1 (vin mnb) pmn2 in
                                        if IsEnabled pmn2 then mnb_Relay e mnb st' else st')
                                 else st1) in
                          (MNB_DONE, nDos,
                           st2\<lparr>addedMasternodeList :=
                                 addedMasternodeList st2 @ [mnb_GetHash e mnb]\<rparr>))
                   else (MNB_DONE, nDos, st))))"

datatype add_exit =
    ADD_OWN_MASTERNODE | ADD_BAD_PING | ADD_ALREADY_ENABLED | ADD_LOCK_NOT_TAKEN
  | ADD_INPUTS_NOT_ACCEPTABLE | ADD_TOO_FEW_CONFIRMATIONS | ADD_NULL_CONF_BLOCK
  | ADD_SIGTIME_BEFORE_CONFIRMATION | ADD_ADDED

fun add_returns :: "add_exit \<Rightarrow> bool" where
  "add_returns ADD_OWN_MASTERNODE = True"
| "add_returns ADD_ALREADY_ENABLED = True"
| "add_returns ADD_ADDED = True"
| "add_returns other = False"

definition forget_seen :: "env \<Rightarrow> CMasternodeBroadcast \<Rightarrow> node \<Rightarrow> node" where
  "forget_seen e mnb st =
    st\<lparr>mapSeenMasternodeBroadcast := (mapSeenMasternodeBroadcast st)(mnb_GetHash e mnb := None),
       mapSeenSyncMNB := (mapSeenSyncMNB st)(mnb_GetHash e mnb := None)\<rparr>"

text \<open>The part of \<^verbatim>\<open>CheckInputsAndAdd\<close> after the registry lookup: validation of the
  collateral and insertion of the new record (\<open>added\<close> is what the source does from
  \<^verbatim>\<open>CMasternode mn(*this)\<close> on). \<open>ADD_NULL_CONF_BLOCK\<close> is the dereference of
  \<^verbatim>\<open>pConfIndex\<close> when \<^verbatim>\<open>chainActive\<close> has no block at that height, where the behaviour of
  the source is undefined.\<close>

definition CheckInputsAndAdd_new ::
  "env \<Rightarrow> CMasternodeBroadcast \<Rightarrow> int \<Rightarrow> node \<Rightarrow> add_exit \<times> int \<times> node" where
  "CheckInputsAndAdd_new e mnb nDoS st =
    (if \<not> lockMain e then (ADD_LOCK_NOT_TAKEN, nDoS, forget_seen e mnb st)
     else if \<not> AcceptableInputs e (vin mnb) (collateral_output_value e)
                (pubKeyCollateralAddress mnb)
       then (ADD_INPUTS_NOT_ACCEPTABLE,
             (case IsInvalid e (vin mnb) (collateral_output_value e)
                     (pubKeyCollateralAddress mnb) of
                None \<Rightarrow> nDoS | Some d \<Rightarrow> d),
             st)
     else
       let nChainHeight = Height e in
       if GetCoinDepthAtHeight e (prevout (vin mnb)) nChainHeight < MASTERNODE_MIN_CONFIRMATIONS
       then (ADD_TOO_FEW_CONFIRMATIONS, nDoS, forget_seen e mnb st)
       else
         let hashBlock = (case GetTransaction e (prevout_hash (prevout (vin mnb))) of
                            None \<Rightarrow> 0 | Some h \<Rightarrow> h);
             mn = CMasternode_copy mnb;
             st1 = Add st mn;
             st2 = (if pubKeyMasternode mnb = activeMasternode_pubKeyMasternode e \<and>
                       protocolVersion mnb = PROTOCOL_VERSION e
                    then st1\<lparr>hotColdEnabled := hotColdEnabled st1 @ [(vin mnb, addr mnb)]\<rparr>
                    else st1);
             isLocal = ((IsRFC1918 e (addr mnb) \<or> IsLocal e (addr mnb)) \<and> \<not> IsRegTestNet e);
             added = (ADD_ADDED, nDoS, if \<not> isLocal then mnb_Relay e mnb st2 else st2) in
         (case mapBlockIndex e hashBlock of
            None \<Rightarrow> added
          | Some pMNIndex \<Rightarrow>
              (case chainActive_at e (nHeight pMNIndex + MASTERNODE_MIN_CONFIRMATIONS - 1) of
                 None \<Rightarrow> (ADD_NULL_CONF_BLOCK, nDoS, st)
               | Some pConfIndex \<Rightarrow>
                   if GetBlockTime pConfIndex > sigTime mnb
                   then (ADD_SIGTIME_BEFORE_CONFIRMATION, nDoS, st)
                   else added)))"

text \<open>\<^verbatim>\<open>CMasternodeBroadcast::CheckInputsAndAdd(nDoS)\<close>: the early returns, the check of
  the embedded ping, and the registry lookup that removes a record that is not enabled.\<close>

definition CheckInputsAndAdd ::
  "env \<Rightarrow> CMasternodeBroadcast \<Rightarrow> int \<Rightarrow> node \<Rightarrow> add_exit \<times> int \<times> node" where
  "CheckInputsAndAdd e mnb nDoS st =
    (if fMasterNode e \<and>
        (case activeMasternode_vin e of
           None \<Rightarrow> False
         | Some avin \<Rightarrow> prevout (vin mnb) = prevout avin) \<and>
        pubKeyMasternode mnb = activeMasternode_pubKeyMasternode e
     then (ADD_OWN_MASTERNODE, nDoS, st)
     else if mnp_IsNull e (lastPing mnb) then (ADD_BAD_PING, nDoS, st)
     else
       (case mnp_CheckAndUpdate e (lastPing mnb) nDoS False True st of
          (ping, nDoS, st) \<Rightarrow>
            if \<not> ping_returns ping then (ADD_BAD_PING, nDoS, st)
            else
              (case Find st (vin mnb) of
                 Some pmn \<Rightarrow>
                   if IsEnabled pmn then (ADD_ALREADY_ENABLED, nDoS, st)
                   else CheckInputsAndAdd_new e mnb nDoS (Remove st (vin pmn))
               | None \<Rightarrow> CheckInputsAndAdd_new e mnb nDoS st)))"

subsection \<open>Well-formed chains and the score of the specification\<close>

text \<open>The invariant of a block index chain: the genesis block has height 0 and every other
  block is one higher than its \<^verbatim>\<open>pprev\<close>.\<close>

fun linked :: "CBlockIndex list \<Rightarrow> bool" where
  "linked [] = True"
| "linked [genesis] = (nHeight genesis = 0)"
| "linked (b # pprev # rest) = (nHeight b = nHeight pprev + 1 \<and> linked (pprev # rest))"

text \<open>The score as section 4.5 of the specification words it, for a given block hash \<open>B\<close>:
  \<open>H1 = H(B)\<close>, \<open>H2 = H(B || outpoint_hash + outpoint_index)\<close>, and the score is
  \<open>|H1 - H2|\<close> in 256-bit unsigned arithmetic.\<close>

definition spec_score :: "env \<Rightarrow> CMasternode \<Rightarrow> uint256 \<Rightarrow> uint256" where
  "spec_score e mn B =
    (let aux = prevout_hash (prevout (vin mn)) + ucast (prevout_n (prevout (vin mn)));
         H1 = CHashWriter e [SER_uint256 B];
         H2 = CHashWriter e [SER_uint256 B, SER_uint256 aux]
     in if H2 > H1 then H2 - H1 else H1 - H2)"

subsection \<open>A concrete scenario\<close>

text \<open>Concrete inputs on which the theorems below are instantiated: a chain of four blocks
  (heights 3 to 0, the block of height \<open>h\<close> having hash \<open>16 + h\<close>), an adjusted time of
  2000, a registry that starts empty, and simple stand-ins for the collaborators: a
  signature is valid for a key exactly when it equals the key's bytes, signing with a key
  yields the key's bytes, and the hash writer folds its items into a number. The legacy
  message scheme is in force (the network upgrade is not active).\<close>

definition scenario_block :: "int \<Rightarrow> CBlockIndex" where
  "scenario_block h = \<lparr>nHeight = h, GetBlockHash_of = word_of_int (16 + h), GetBlockTime = 100 * h\<rparr>"

definition scenario_chain :: "CBlockIndex list" where
  "scenario_chain = [scenario_block 3, scenario_block 2, scenario_block 1, scenario_block 0]"

definition scenario_hash :: "ser_item list \<Rightarrow> uint256" where
  "scenario_hash items =
    foldl (\<lambda>acc item. 31 * acc +
             (case item of SER_uint256 w \<Rightarrow> w | SER_int64 x \<Rightarrow> word_of_int x
              | SER_int x \<Rightarrow> word_of_int x | SER_pubkey k \<Rightarrow> of_nat (length k)
              | SER_txin t \<Rightarrow> prevout_hash (prevout t) | SER_service a \<Rightarrow> of_nat (GetPort a)
              | SER_version v \<Rightarrow> 1 | SER_string s \<Rightarrow> of_nat (length s)))
      7 items"

definition scenario_env :: env where
  "scenario_env =
    \<lparr>coin = 100000000, GetAdjustedTime = 2000, GetTime = 2000, ShutdownRequested = False,
     ActiveProtocol = 70920, PROTOCOL_VERSION = 70920, MIN_PEER_MNANNOUNCE = 70913,
     GetDefaultPort = 9999, IsRegTestNet = False, lockMain = True,
     chainActive = scenario_chain,
     mapBlockIndex = (\<lambda>h. find (\<lambda>b. GetBlockHash_of b = h) scenario_chain),
     AcceptableInputs = (\<lambda>txin val key. True),
     IsInvalid = (\<lambda>txin val key. None),
     GetCoinDepthAtHeight = (\<lambda>out h. 20),
     GetTransaction = (\<lambda>h. None),
     ScriptForDestination_size = (\<lambda>key. 25),
     VerifyMessage = (\<lambda>key sig msg. sig = key),
     SignMessage = (\<lambda>msg key. Some key),
     SignCompact = (\<lambda>key h. Some key),
     CHashWriter = scenario_hash,
     GetHex = (\<lambda>h. []),
     Service_ToString = (\<lambda>a. []),
     to_string = (\<lambda>i. []),
     GetID_ToString = (\<lambda>key. []),
     strMessageMagic = [],
     NetworkUpgradeActive_V2 = (\<lambda>h. False),
     mnp_CheckSignature = (\<lambda>mnp key. mnp_vchSig mnp = key),
     mnp_IsNull = (\<lambda>mnp. blockHash mnp = 0),
     IsPingedWithin = (\<lambda>mn seconds now.
        blockHash (lastPing mn) \<noteq> 0 \<and>
        (if now = - 1 then 2000 else now) - mnp_sigTime (lastPing mn) < seconds),
     IsBroadcastedWithin = (\<lambda>mn seconds. 2000 - sigTime mn < seconds),
     fMasterNode = False, activeMasternode_vin = None, activeMasternode_pubKeyMasternode = [],
     IsRFC1918 = (\<lambda>a. False), IsLocal = (\<lambda>a. False),
     mBurnAddresses = [], EncodeDestination = (\<lambda>key. []),
     SPORK_103_PING_MESSAGE_SALT = 0\<rparr>"

definition scenario_vin :: CTxIn where
  "scenario_vin = \<lparr>prevout = \<lparr>prevout_hash = 17, prevout_n = 0\<rparr>, scriptSig = [],
                    nSequence = 4294967295\<rparr>"

definition scenario_ping :: "int \<Rightarrow> CMasternodePing" where
  "scenario_ping t = \<lparr>mnp_vin = scenario_vin, blockHash = 18, mnp_sigTime = t, mnp_vchSig = [2, 2],
                      mnp_nMessVersion = MESS_VER_STRMESS\<rparr>"

definition scenario_mnb :: "int \<Rightarrow> CMasternodeBroadcast" where
  "scenario_mnb t =
    \<lparr>vin = scenario_vin, addr = \<lparr>GetHost = [10, 0, 0, 1], GetPort = 9999\<rparr>,
     pubKeyCollateralAddress = [2, 1], pubKeyMasternode = [2, 2],
     activeState = MASTERNODE_ENABLED, sigTime = t, lastPing = scenario_ping 1900,
     unitTest = False, allowFreeTx = True, protocolVersion = 70920, nLastDsq = 0,
     nScanningErrorCount = 0, nLastScanningErrorBlockHeight = 0, lastTimeChecked = 0,
     vchSig = [2, 1], nMessVersion = MESS_VER_STRMESS\<rparr>"

definition scenario_node :: node where
  "scenario_node =
    \<lparr>vMasternodes = Map.empty, mapSeenMasternodePing = Map.empty,
     mapSeenMasternodeBroadcast = Map.empty, mapSeenSyncMNB = Map.empty,
     mapCacheBlockHashes = Map.empty, relayed = [], addedMasternodeList = [],
     hotColdEnabled = []\<rparr>"


section \<open>Verified properties\<close>

lemmas scenario_defs = scenario_env_def scenario_chain_def scenario_block_def scenario_hash_def
  scenario_vin_def scenario_ping_def scenario_mnb_def scenario_node_def

subsection \<open>Schedules\<close>

lemma InitLoop_skip:
  assumes "i \<le> j" and "j \<le> 9999999"
    and "\<forall>k. i \<le> k \<and> k < j \<longrightarrow> GetMasternodeNodeCollateral COIN k = prev"
  shows "InitLoop COIN i prev vec = InitLoop COIN j prev vec"
  using assms
proof (induction "nat (j - i)" arbitrary: i)
  case 0
  then show ?case by simp
next
  case (Suc d)
  then have lt: "i < j" by linarith
  have c: "GetMasternodeNodeCollateral COIN i = prev"
    using Suc.prems lt by simp
  have "InitLoop COIN i prev vec = InitLoop COIN (i + 1) prev vec"
    using lt Suc.prems(2) c by (subst InitLoop.simps) simp
  also have "\<dots> = InitLoop COIN j prev vec"
    using Suc.hyps(2) lt Suc.prems by (intro Suc.hyps(1)) auto
  finally show ?case .
qed

lemma InitLoop_push:
  assumes "i < 9999999" and "GetMasternodeNodeCollateral COIN i = c" and "prev \<noteq> c"
  shows "InitLoop COIN i prev vec = InitLoop COIN (i + 1) c (vec @ [(i, c)])"
  using assms by (subst InitLoop.simps) simp

lemma InitLoop_band:
  assumes "i < j" and "j \<le> 9999999" and "prev \<noteq> c"
    and "\<forall>k. i \<le> k \<and> k < j \<longrightarrow> GetMasternodeNodeCollateral COIN k = c"
  shows "InitLoop COIN i prev vec = InitLoop COIN j c (vec @ [(i, c)])"
proof -
  have "InitLoop COIN i prev vec = InitLoop COIN (i + 1) c (vec @ [(i, c)])"
    using assms by (intro InitLoop_push) auto
  also have "\<dots> = InitLoop COIN j c (vec @ [(i, c)])"
    using assms by (intro InitLoop_skip) auto
  finally show ?thesis .
qed

lemma InitLoop_done: "InitLoop COIN 9999999 prev vec = vec"
  by (subst InitLoop.simps) simp

text \<open>The transition list the startup scan builds from an empty vector: eleven entries,
  the last at height 9000000, since the scan stops before height 9999999.\<close>

lemma InitMasternodeCollateralList_eq:
  assumes "COIN \<noteq> 0"
  shows "InitMasternodeCollateralList COIN [] =
    [(0, 0), (2, 100000 * COIN), (1000000, 110000 * COIN),
     (2000000, 121000 * COIN), (3000000, 133100 * COIN),
     (4000000, 146410 * COIN), (5000000, 161051 * COIN),
     (6000000, 177156 * COIN), (7000000, 194872 * COIN),
     (8000000, 214359 * COIN), (9000000, 235795 * COIN)]"
proof -
  note d = GetMasternodeNodeCollateral_def
  have "InitLoop COIN 0 (- 1) [] = InitLoop COIN 2 (0)
      [(0, 0)]"
    using assms by (subst InitLoop_band [where j = 2 and c = 0]) (auto simp: d)
  also have "\<dots> = InitLoop COIN 1000000 (100000 * COIN)
      [(0, 0), (2, 100000 * COIN)]"
    using assms by (subst InitLoop_band [where j = 1000000 and c = "100000 * COIN"]) (auto simp: d)
  also have "\<dots> = InitLoop COIN 2000000 (110000 * COIN)
      [(0, 0), (2, 100000 * COIN), (1000000, 110000 * COIN)]"
    using assms by (subst InitLoop_band [where j = 2000000 and c = "110000 * COIN"]) (auto simp: d)
  also have "\<dots> = InitLoop COIN 3000000 (121000 * COIN)
      [(0, 0), (2, 100000 * COIN), (1000000, 110000 * COIN),
       (2000000, 121000 * COIN)]"
    using assms by (subst InitLoop_band [where j = 3000000 and c = "121000 * COIN"]) (auto simp: d)
  also have "\<dots> = InitLoop COIN 4000000 (133100 * COIN)
      [(0, 0), (2, 100000 * COIN), (1000000, 110000 * COIN),
       (2000000, 121000 * COIN), (3000000, 133100 * COIN)]"
    using assms by (subst InitLoop_band [where j = 4000000 and c = "133100 * COIN"]) (auto simp: d)
  also have "\<dots> = InitLoop COIN 5000000 (146410 * COIN)
      [(0, 0), (2, 100000 * COIN), (1000000, 110000 * COIN),
       (2000000, 121000 * COIN), (3000000, 133100 * COIN),
       (4000000, 146410 * COIN)]"
    using assms by (subst InitLoop_band [where j = 5000000 and c = "146410 * COIN"]) (auto simp: d)
  also have "\<dots> = InitLoop COIN 6000000 (161051 * COIN)
      [(0, 0), (2, 100000 * COIN), (1000000, 110000 * COIN),
       (2000000, 121000 * COIN), (3000000, 133100 * COIN),
       (4000000, 146410 * COIN), (5000000, 161051 * COIN)]"
    using assms by (subst InitLoop_band [where j = 6000000 and c = "161051 * COIN"]) (auto simp: d)
  also have "\<dots> = InitLoop COIN 7000000 (177156 * COIN)
      [(0, 0), (2, 100000 * COIN), (1000000, 110000 * COIN),
       (2000000, 121000 * COIN), (3000000, 133100 * COIN),
       (4000000, 146410 * COIN), (5000000, 161051 * COIN),
       (6000000, 177156 * COIN)]"
    using assms by (subst InitLoop_band [where j = 7000000 and c = "177156 * COIN"]) (auto simp: d)
  also have "\<dots> = InitLoop COIN 8000000 (194872 * COIN)
      [(0, 0), (2, 100000 * COIN), (1000000, 110000 * COIN),
       (2000000, 121000 * COIN), (3000000, 133100 * COIN),
       (4000000, 146410 * COIN), (5000000, 161051 * COIN),
       (6000000, 177156 * COIN), (7000000, 194872 * COIN)]"
    using assms by (subst InitLoop_band [where j = 8000000 and c = "194872 * COIN"]) (auto simp: d)
  also have "\<dots> = InitLoop COIN 9000000 (214359 * COIN)
      [(0, 0), (2, 100000 * COIN), (1000000, 110000 * COIN),
       (2000000, 121000 * COIN), (3000000, 133100 * COIN),
       (4000000, 146410 * COIN), (5000000, 161051 * COIN),
       (6000000, 177156 * COIN), (7000000, 194872 * COIN),
       (8000000, 214359 * COIN)]"
    using assms by (subst InitLoop_band [where j = 9000000 and c = "214359 * COIN"]) (auto simp: d)
  also have "\<dots> = InitLoop COIN 9999999 (235795 * COIN)
      [(0, 0), (2, 100000 * COIN), (1000000, 110000 * COIN),
       (2000000, 121000 * COIN), (3000000, 133100 * COIN),
       (4000000, 146410 * COIN), (5000000, 161051 * COIN),
       (6000000, 177156 * COIN), (7000000, 194872 * COIN),
       (8000000, 214359 * COIN), (9000000, 235795 * COIN)]"
    using assms by (subst InitLoop_band [where j = 9999999 and c = "235795 * COIN"]) (auto simp: d)
  finally show ?thesis
    by (simp add: InitMasternodeCollateralList_def InitLoop_done)
qed

lemma GetBlockValue_zero_at_cap:
  "maxMoneyOut \<le> nMoneySupply \<Longrightarrow> GetBlockValue COIN maxMoneyOut nMoneySupply h = 0"
  by (simp add: GetBlockValue_def)

lemma GetBlockValue_crossing:
  "nMoneySupply < maxMoneyOut \<Longrightarrow> maxMoneyOut < nMoneySupply + nSubsidy COIN h \<Longrightarrow>
   GetBlockValue COIN maxMoneyOut nMoneySupply h
     = nMoneySupply + nSubsidy COIN h - maxMoneyOut"
  by (simp add: GetBlockValue_def)

text \<open>Claim C1. At or above the cap the block value is zero, but where the subsidy would
  cross the cap the source returns \<^verbatim>\<open>nMoneySupply + nSubsidy - maxMoneyOut\<close>, the amount
  by which the cap would be overshot, and not the room left below the cap. With 10^8 base
  units per coin, a cap of 21000000 coins, a supply one base unit below the cap and
  height 2 (subsidy 100 coins) the room left is 1 base unit; the function returns
  9999999999, and paying that takes the supply above the cap.\<close>

theorem GetBlockValue_crossing_returns_overshoot:
  "GetBlockValue 100000000 2100000000000000 2099999999999999 2 = 9999999999
   \<and> GetBlockValue 100000000 2100000000000000 2099999999999999 2
       \<noteq> 2100000000000000 - 2099999999999999
   \<and> 2099999999999999 + GetBlockValue 100000000 2100000000000000 2099999999999999 2
       > 2100000000000000"
  by (simp add: GetBlockValue_def nSubsidy_def)

text \<open>Claim C2, as stated: the four published boundary values. The third and the fourth
  do not hold: the comparison that yields 611591 is \<^verbatim>\<open>nHeight > 18999999\<close>, one band
  later than published.\<close>

theorem collateral_published_boundaries_counterexample:
  "\<not> (GetMasternodeNodeCollateral 100000000 999999 = 100000 * 100000000
      \<and> GetMasternodeNodeCollateral 100000000 1000000 = 110000 * 100000000
      \<and> GetMasternodeNodeCollateral 100000000 18999999 = 611591 * 100000000
      \<and> GetMasternodeNodeCollateral 100000000 19000000 = 581011 * 100000000)"
  by (simp add: GetMasternodeNodeCollateral_def)

text \<open>Claim C2, amended: collateral(999999) = 100000 coins, collateral(1000000) = 110000
  coins, collateral(18999999) = 555992 coins, collateral(19000000) = 611591 coins and
  collateral(20000000) = 581011 coins; the one-time 611591 bump covers exactly the heights
  19000000 through 19999999 (for a non-zero \<^verbatim>\<open>COIN\<close>).\<close>

theorem collateral_band_boundaries:
  "GetMasternodeNodeCollateral COIN 999999 = 100000 * COIN
   \<and> GetMasternodeNodeCollateral COIN 1000000 = 110000 * COIN
   \<and> GetMasternodeNodeCollateral COIN 18999999 = 555992 * COIN
   \<and> GetMasternodeNodeCollateral COIN 19000000 = 611591 * COIN
   \<and> GetMasternodeNodeCollateral COIN 20000000 = 581011 * COIN
   \<and> (COIN \<noteq> 0 \<longrightarrow>
        (GetMasternodeNodeCollateral COIN h = 611591 * COIN)
          = (19000000 \<le> h \<and> h \<le> 19999999))"
  by (simp add: GetMasternodeNodeCollateral_def)

theorem collateral_band_boundaries_witness:
  "(100000000 :: int) \<noteq> 0
   \<and> GetMasternodeNodeCollateral 100000000 18999999 = 55599200000000
   \<and> GetMasternodeNodeCollateral 100000000 19000000 = 61159100000000
   \<and> GetMasternodeNodeCollateral 100000000 19500000 = 61159100000000
   \<and> GetMasternodeNodeCollateral 100000000 20000000 \<noteq> 61159100000000"
  using collateral_band_boundaries [of 100000000 19500000]
    collateral_band_boundaries [of 100000000 20000000]
  by simp

text \<open>Claim C5, as stated, says that the sentinel \<open>(-1, -1)\<close> comes back exactly when the
  collateral never changes after \<open>h\<close>. The startup scan stops before height 9999999, so
  the last recorded transition is the one at 9000000: at \<open>h = 9000000\<close> the sentinel is
  returned although the collateral changes again at height 10000000.\<close>

theorem next_change_sentinel_counterexample:
  "GetNextMasternodeCollateral (InitMasternodeCollateralList 100000000 []) 9000000 = (- 1, - 1)
   \<and> (9000000 :: int) < 10000000
   \<and> GetMasternodeNodeCollateral 100000000 10000000
       \<noteq> GetMasternodeNodeCollateral 100000000 9000000"
  by (simp add: InitMasternodeCollateralList_eq GetMasternodeNodeCollateral_def)

text \<open>Claim C5, amended: over the list materialised at startup (from an empty vector,
  \<^verbatim>\<open>COIN\<close> non-zero), for every height \<open>0 \<le> h < 9000000\<close> the result is not the sentinel,
  its \<open>blocks_until\<close> is strictly positive, the collateral at \<open>h + blocks_until\<close> differs
  from the collateral at \<open>h\<close>, and \<open>new_amount\<close> is the collateral at \<open>h + blocks_until\<close>;
  the sentinel \<open>(-1, -1)\<close> is returned exactly when \<open>h \<ge> 9000000\<close>, that is when no
  transition recorded by the scan of the heights below 9999999 lies above \<open>h\<close>. For a
  negative \<open>h\<close> the answer is the first entry, \<open>(-h, 0)\<close>.\<close>

theorem next_change_over_scanned_range:
  assumes "COIN \<noteq> 0"
  shows "(GetNextMasternodeCollateral (InitMasternodeCollateralList COIN []) h = (- 1, - 1))
           = (9000000 \<le> h)
   \<and> (0 \<le> h \<and> h < 9000000 \<longrightarrow>
        0 < fst (GetNextMasternodeCollateral (InitMasternodeCollateralList COIN []) h)
      \<and> GetMasternodeNodeCollateral COIN
           (h + fst (GetNextMasternodeCollateral (InitMasternodeCollateralList COIN []) h))
          \<noteq> GetMasternodeNodeCollateral COIN h
      \<and> snd (GetNextMasternodeCollateral (InitMasternodeCollateralList COIN []) h)
          = GetMasternodeNodeCollateral COIN
           (h + fst (GetNextMasternodeCollateral (InitMasternodeCollateralList COIN []) h)))
   \<and> (h < 0 \<longrightarrow>
        GetNextMasternodeCollateral (InitMasternodeCollateralList COIN []) h = (- h, 0))"
  using assms by (simp add: InitMasternodeCollateralList_eq GetMasternodeNodeCollateral_def)

theorem next_change_over_scanned_range_witness:
  "(100000000 :: int) \<noteq> 0 \<and> (0 :: int) \<le> 1500000 \<and> (1500000 :: int) < 9000000
   \<and> GetNextMasternodeCollateral (InitMasternodeCollateralList 100000000 []) 1500000
        = (500000, 12100000000000)
   \<and> GetMasternodeNodeCollateral 100000000 (1500000 + 500000)
        \<noteq> GetMasternodeNodeCollateral 100000000 1500000
   \<and> GetNextMasternodeCollateral (InitMasternodeCollateralList 100000000 []) (- 1) = (1, 0)"
proof -
  have nz: "(100000000 :: int) \<noteq> 0" by simp
  note t = next_change_over_scanned_range [OF nz]
  have a: "GetNextMasternodeCollateral (InitMasternodeCollateralList 100000000 []) 1500000
        = (500000, 12100000000000)"
    by (simp add: InitMasternodeCollateralList_eq)
  show ?thesis
    using t [of 1500000] t [of "- 1"] a by simp
qed

subsection \<open>Scoring\<close>

lemma linked_height: "linked (b # bs) \<Longrightarrow> nHeight b = int (length bs)"
  by (induction bs arbitrary: b) auto

lemma walk_back_linked:
  "linked (b # bs) \<Longrightarrow> n \<le> ago \<Longrightarrow>
   walk_back (b # bs) n ago =
     (if 1 \<le> nHeight b - (ago - n)
      then map_option GetBlockHash_of (find (\<lambda>x. nHeight x = nHeight b - (ago - n)) (b # bs))
      else None)"
proof (induction bs arbitrary: b n)
  case Nil
  then show ?case by simp
next
  case (Cons c cs)
  from Cons.prems have hb: "nHeight b = nHeight c + 1" and lc: "linked (c # cs)"
    by auto
  from linked_height [OF lc] have hc: "0 \<le> nHeight c" by simp
  show ?case
  proof (cases "ago \<le> n")
    case True
    with Cons.prems hb hc show ?thesis by simp
  next
    case False
    then have n1: "n + 1 \<le> ago" by simp
    have "walk_back (b # c # cs) n ago = walk_back (c # cs) (n + 1) ago"
      using False hb hc by simp
    also have "\<dots> = (if 1 \<le> nHeight c - (ago - (n + 1))
        then map_option GetBlockHash_of
               (find (\<lambda>x. nHeight x = nHeight c - (ago - (n + 1))) (c # cs))
        else None)"
      by (rule Cons.IH [OF lc n1])
    also have "nHeight c - (ago - (n + 1)) = nHeight b - (ago - n)"
      using hb by simp
    finally show ?thesis
      using False hb by simp
  qed
qed

lemma GetBlockHash_resolved:
  assumes c: "chainActive e = tip # rest" and lt: "linked (tip # rest)"
    and nz: "nHeight tip \<noteq> 0"
    and hk: "(if h = 0 then nHeight tip else h) = k"
  shows "fst (GetBlockHash e st h) =
    (case mapCacheBlockHashes st k of
       Some B \<Rightarrow> Some B
     | None \<Rightarrow>
         if k = 1 \<or> nHeight tip + 1 < k then None
         else map_option GetBlockHash_of
                (find (\<lambda>x. nHeight x = (if k < 0 then nHeight tip else k - 1)) (tip # rest)))"
proof -
  from linked_height [OF lt] have h0: "0 \<le> nHeight tip" by simp
  have k0: "k \<noteq> 0" using nz hk by (auto split: if_splits)
  have unfolded: "fst (GetBlockHash e st h) =
    (case mapCacheBlockHashes st k of
       Some B \<Rightarrow> Some B
     | None \<Rightarrow>
         if (if k > 0 then (nHeight tip + 1) - k else 0) < 0 then None
         else walk_back (tip # rest) 0 (if k > 0 then (nHeight tip + 1) - k else 0))"
    using c nz by (simp add: GetBlockHash_def Let_def hk split: option.splits)
  show ?thesis
  proof (cases "0 < k")
    case True
    show ?thesis
    proof (cases "nHeight tip + 1 < k")
      case True
      with \<open>0 < k\<close> show ?thesis
        unfolding unfolded by (simp split: option.splits)
    next
      case nb: False
      have w: "walk_back (tip # rest) 0 (nHeight tip + 1 - k) =
        (if 1 \<le> k - 1
         then map_option GetBlockHash_of (find (\<lambda>x. nHeight x = k - 1) (tip # rest))
         else None)"
        using walk_back_linked [OF lt, of 0 "nHeight tip + 1 - k"] nb by simp
      have k1: "(1 \<le> k - 1) = (k \<noteq> 1)" using True by auto
      show ?thesis
        unfolding unfolded using True nb w
        by (cases "k = 1") (auto simp del: find.simps walk_back.simps split: option.splits)
    qed
  next
    case False
    with k0 have kneg: "k < 0" by simp
    have w: "walk_back (tip # rest) 0 0 = Some (GetBlockHash_of tip)"
      using nz h0 by simp
    show ?thesis
      unfolding unfolded using kneg h0 w
      by (simp del: walk_back.simps split: option.splits)
  qed
qed

lemma GetBlockHash_linked:
  assumes l: "linked (chainActive e)"
  shows "fst (GetBlockHash e st h) =
    (let k = (if h = 0 then Height e else h) in
     if chainActive e = [] \<or> Height e = 0 then None
     else (case mapCacheBlockHashes st k of
             Some B \<Rightarrow> Some B
           | None \<Rightarrow>
               if k = 1 \<or> Height e + 1 < k then None
               else map_option GetBlockHash_of
                      (chainActive_at e (if k < 0 then Height e else k - 1))))"
proof (cases "chainActive e")
  case Nil
  then show ?thesis by (simp add: GetBlockHash_def)
next
  case (Cons tip rest)
  with l have lt: "linked (tip # rest)" by simp
  have H: "Height e = nHeight tip" using Cons by (simp add: Height_def)
  show ?thesis
  proof (cases "nHeight tip = 0")
    case True
    with Cons show ?thesis by (simp add: GetBlockHash_def Height_def)
  next
    case False
    show ?thesis
      unfolding GetBlockHash_resolved [OF Cons lt False refl] Let_def H chainActive_at_def Cons
      using False by simp
  qed
qed


text \<open>Claim C3, as stated, takes \<open>B\<close> to be the hash of the block at height \<open>h\<close> and the
  score to be zero when that block is unavailable. \<^verbatim>\<open>GetBlockHash\<close> walks
  \<^verbatim>\<open>(tip height + 1) - h\<close> blocks back from the tip, which ends one block below height
  \<open>h\<close>. In the scenario (tip at height 3, nothing memoised) the block of height 3 has hash
  19, yet the score at \<open>h = 3\<close> is the specification's score of hash 18, the hash of the block
  of height 2, and differs from the score of hash 19; and at \<open>h = 4\<close>, a height at which the
  chain has no block, the score is not zero.\<close>

theorem CalculateScore_height_counterexample:
  "map_option GetBlockHash_of (chainActive_at scenario_env 3) = Some 19
   \<and> fst (CalculateScore scenario_env (scenario_mnb 1000) 0 3 scenario_node)
       = spec_score scenario_env (scenario_mnb 1000) 18
   \<and> fst (CalculateScore scenario_env (scenario_mnb 1000) 0 3 scenario_node)
       \<noteq> spec_score scenario_env (scenario_mnb 1000) 19
   \<and> chainActive_at scenario_env 4 = None
   \<and> fst (CalculateScore scenario_env (scenario_mnb 1000) 0 4 scenario_node) \<noteq> 0"
  by (simp add: scenario_defs CalculateScore_def GetBlockHash_def spec_score_def
      chainActive_at_def int64_to_int_def Let_def)

text \<open>Claim C3, amended: on a well-formed chain, for every height \<open>h\<close> (narrowed to
  \<^verbatim>\<open>int\<close>, with 0 standing for the tip height) and every record, \<^verbatim>\<open>CalculateScore\<close>
  returns \<open>|H1 - H2|\<close> with \<open>H1 = H(B)\<close> and \<open>H2 = H(B || tx hash + output index)\<close>, where
  \<open>B\<close> is the hash memoised for \<open>h\<close> if there is one, and otherwise the hash of the block
  of the active chain at height \<open>h - 1\<close> (the tip block for a negative \<open>h\<close>); it returns
  zero when there is no chain tip, when the tip is at height 0, and, nothing being
  memoised for \<open>h\<close>, when \<open>h = 1\<close> or \<open>h\<close> is above tip height + 1.\<close>

theorem CalculateScore_block_below:
  assumes l: "linked (chainActive e)"
  shows "fst (CalculateScore e mn m h st) =
    (let k = (if int64_to_int h = 0 then Height e else int64_to_int h) in
     if chainActive e = [] \<or> Height e = 0 then 0
     else (case mapCacheBlockHashes st k of
             Some B \<Rightarrow> spec_score e mn B
           | None \<Rightarrow>
               if k = 1 \<or> Height e + 1 < k then 0
               else (case chainActive_at e (if k < 0 then Height e else k - 1) of
                       None \<Rightarrow> 0
                     | Some b \<Rightarrow> spec_score e mn (GetBlockHash_of b))))"
proof -
  have "fst (CalculateScore e mn m h st) =
    (if chainActive e = [] then 0
     else case fst (GetBlockHash e st (int64_to_int h)) of
            None \<Rightarrow> 0 | Some B \<Rightarrow> spec_score e mn B)"
    by (simp add: CalculateScore_def spec_score_def Let_def split: prod.splits option.splits)
  then show ?thesis
    unfolding GetBlockHash_linked [OF l]
    by (simp add: Let_def split: option.splits)
qed

theorem CalculateScore_block_below_witness:
  "linked (chainActive scenario_env)
   \<and> fst (CalculateScore scenario_env (scenario_mnb 1000) 0 3 scenario_node)
       = spec_score scenario_env (scenario_mnb 1000) 18
   \<and> fst (CalculateScore scenario_env (scenario_mnb 1000) 0 1 scenario_node) = 0"
proof -
  have l: "linked (chainActive scenario_env)"
    by (simp add: scenario_defs)
  show ?thesis
    using l CalculateScore_block_below [OF l, of "scenario_mnb 1000" 0 3 scenario_node]
      CalculateScore_block_below [OF l, of "scenario_mnb 1000" 0 1 scenario_node]
    by (simp add: scenario_env_def scenario_chain_def scenario_block_def scenario_node_def
        Height_def chainActive_at_def int64_to_int_def)
qed

subsection \<open>Record check and heartbeats\<close>

lemma Check_lastPing: "lastPing (Check e f mn) = lastPing mn"
  by (simp add: Check_def Let_def)


lemma ping_sigTimeOnly:
  "mnp_CheckAndUpdate e mnp nDos fReq True st = (x, d, st') \<Longrightarrow>
     st' = st \<and> (ping_returns x \<longrightarrow> d = nDos)"
  by (auto simp: mnp_CheckAndUpdate_def Let_def split: if_splits)

text \<open>Claim C7, as stated, has the window closed at both ends. The second test of the
  source is \<^verbatim>\<open>sigTime <= GetAdjustedTime() - 60 * 60\<close>: with an adjusted time of 10000, a
  ping signed at 6400, the lower end of the inclusive window, is rejected by the
  timestamp check with score 1.\<close>

theorem ping_window_lower_end_counterexample:
  "(10000 :: int) - 3600 \<le> 6400 \<and> (6400 :: int) \<le> 10000 + 3600
   \<and> mnp_CheckAndUpdate (scenario_env\<lparr>GetAdjustedTime := 10000\<rparr>) (scenario_ping 6400) 0
        True False scenario_node
       = (PING_SIGTIME_PAST, 1, scenario_node)"
  by (simp add: scenario_env_def scenario_ping_def mnp_CheckAndUpdate_def)

text \<open>Claim C7, amended: for every ping, every current adjusted time and both modes, a
  \<open>sig_time\<close> inside the half-open window \<open>(now - 3600, now + 3600]\<close> is never rejected by
  the timestamp check, and a \<open>sig_time\<close> outside it (at or below \<open>now - 3600\<close>, or above
  \<open>now + 3600\<close>) is rejected by the timestamp check with misbehaviour score 1, the state
  being left as it was.\<close>

theorem ping_sigTime_window:
  "(GetAdjustedTime e - 3600 < mnp_sigTime mnp \<and> mnp_sigTime mnp \<le> GetAdjustedTime e + 3600 \<longrightarrow>
      fst (mnp_CheckAndUpdate e mnp nDos fReq fSig st) \<noteq> PING_SIGTIME_FUTURE
    \<and> fst (mnp_CheckAndUpdate e mnp nDos fReq fSig st) \<noteq> PING_SIGTIME_PAST)
  \<and> (mnp_sigTime mnp \<le> GetAdjustedTime e - 3600 \<or> GetAdjustedTime e + 3600 < mnp_sigTime mnp \<longrightarrow>
      fst (mnp_CheckAndUpdate e mnp nDos fReq fSig st) \<in> {PING_SIGTIME_FUTURE, PING_SIGTIME_PAST}
    \<and> \<not> ping_returns (fst (mnp_CheckAndUpdate e mnp nDos fReq fSig st))
    \<and> fst (snd (mnp_CheckAndUpdate e mnp nDos fReq fSig st)) = 1
    \<and> snd (snd (mnp_CheckAndUpdate e mnp nDos fReq fSig st)) = st)"
  by (simp add: mnp_CheckAndUpdate_def Let_def split: option.splits)

theorem ping_sigTime_window_witness:
  "GetAdjustedTime (scenario_env\<lparr>GetAdjustedTime := 10000\<rparr>) - 3600
     < mnp_sigTime (scenario_ping 6401)
   \<and> mnp_sigTime (scenario_ping 13600)
     \<le> GetAdjustedTime (scenario_env\<lparr>GetAdjustedTime := 10000\<rparr>) + 3600
   \<and> fst (mnp_CheckAndUpdate (scenario_env\<lparr>GetAdjustedTime := 10000\<rparr>) (scenario_ping 6401) 0
            True False scenario_node) \<noteq> PING_SIGTIME_PAST
   \<and> fst (mnp_CheckAndUpdate (scenario_env\<lparr>GetAdjustedTime := 10000\<rparr>) (scenario_ping 13600) 0
            True False scenario_node) \<noteq> PING_SIGTIME_FUTURE
   \<and> GetAdjustedTime (scenario_env\<lparr>GetAdjustedTime := 10000\<rparr>) + 3600
     < mnp_sigTime (scenario_ping 13601)
   \<and> fst (snd (mnp_CheckAndUpdate (scenario_env\<lparr>GetAdjustedTime := 10000\<rparr>)
                  (scenario_ping 13601) 0 True False scenario_node)) = 1"
  using
    ping_sigTime_window [of "scenario_env\<lparr>GetAdjustedTime := 10000\<rparr>" "scenario_ping 6401"
      0 True False scenario_node]
    ping_sigTime_window [of "scenario_env\<lparr>GetAdjustedTime := 10000\<rparr>" "scenario_ping 13600"
      0 True False scenario_node]
    ping_sigTime_window [of "scenario_env\<lparr>GetAdjustedTime := 10000\<rparr>" "scenario_ping 13601"
      0 True False scenario_node]
  by (simp add: scenario_env_def scenario_ping_def)

text \<open>Claim C10: in full mode, when \<^verbatim>\<open>CMasternodePing::CheckAndUpdate\<close> returns failure
  because the state after the forced \<^verbatim>\<open>Check\<close> is not \<open>Enabled\<close>, the registry already
  holds the record with \<^verbatim>\<open>lastPing\<close> set to this ping: the record stored is the forced
  check of the old record with its \<^verbatim>\<open>lastPing\<close> replaced.\<close>

theorem ping_failure_after_check_keeps_new_lastPing:
  assumes "fst (mnp_CheckAndUpdate e mnp nDos fReq fSig st) = PING_NOT_ENABLED_AFTER_CHECK"
  shows "\<not> ping_returns (fst (mnp_CheckAndUpdate e mnp nDos fReq fSig st))
     \<and> \<not> fSig
     \<and> (\<exists>mn. Find st (mnp_vin mnp) = Some mn
          \<and> Find (snd (snd (mnp_CheckAndUpdate e mnp nDos fReq fSig st))) (mnp_vin mnp)
              = Some (Check e True (mn\<lparr>lastPing := mnp\<rparr>)))
     \<and> lastPing (the (Find (snd (snd (mnp_CheckAndUpdate e mnp nDos fReq fSig st)))
                        (mnp_vin mnp))) = mnp
     \<and> \<not> IsEnabled (the (Find (snd (snd (mnp_CheckAndUpdate e mnp nDos fReq fSig st)))
                            (mnp_vin mnp)))"
  using assms
  by (auto simp: mnp_CheckAndUpdate_def Let_def Find_def store_def Check_lastPing
      split: option.splits if_splits)

text \<open>The hypothesis is met in the scenario: the record was announced at 1900 and last
  pinged at 1000; a valid ping signed at 1950 is stored, the forced check leaves the record
  \<open>PreEnabled\<close> (the ping is less than ten minutes younger than the announcement), and the
  call returns failure.\<close>

theorem ping_failure_after_check_keeps_new_lastPing_witness:
  "fst (mnp_CheckAndUpdate scenario_env (scenario_ping 1950) 0 False False
          (store scenario_node scenario_vin ((scenario_mnb 1900)\<lparr>lastPing := scenario_ping 1000\<rparr>)))
     = PING_NOT_ENABLED_AFTER_CHECK
   \<and> lastPing (the (Find (store scenario_node scenario_vin
                            ((scenario_mnb 1900)\<lparr>lastPing := scenario_ping 1000\<rparr>))
                      (mnp_vin (scenario_ping 1950)))) = scenario_ping 1000
   \<and> lastPing (the (Find (snd (snd (mnp_CheckAndUpdate scenario_env (scenario_ping 1950) 0
                                       False False
                                       (store scenario_node scenario_vin
                                          ((scenario_mnb 1900)\<lparr>lastPing := scenario_ping 1000\<rparr>)))))
                      (mnp_vin (scenario_ping 1950)))) = scenario_ping 1950"
proof -
  let ?st = "store scenario_node scenario_vin ((scenario_mnb 1900)\<lparr>lastPing := scenario_ping 1000\<rparr>)"
  have h: "fst (mnp_CheckAndUpdate scenario_env (scenario_ping 1950) 0 False False ?st)
      = PING_NOT_ENABLED_AFTER_CHECK"
    by (simp add: scenario_defs mnp_CheckAndUpdate_def Find_def store_def Let_def Check_def
        Contains_def chainActive_at_def Height_def IsEnabled_def
        MASTERNODE_MIN_MNP_SECONDS_def MASTERNODE_REMOVAL_SECONDS_def
        MASTERNODE_EXPIRATION_SECONDS_def)
  have old: "lastPing (the (Find ?st (mnp_vin (scenario_ping 1950)))) = scenario_ping 1000"
    by (simp add: scenario_defs Find_def store_def)
  show ?thesis
    using h old ping_failure_after_check_keeps_new_lastPing [OF h] by simp
qed

subsection \<open>Announcements\<close>

text \<open>Claim C4, as stated, has the rejection carry misbehaviour score 100. The branch
  \<^verbatim>\<open>if (pmn->sigTime >= sigTime)\<close> returns through \<^verbatim>\<open>error(...)\<close> and never assigns
  \<^verbatim>\<open>nDos\<close>. Scenario S2: announcement A1 with \<open>sig_time = 1000\<close> is admitted into the empty
  registry; A2 for the same outpoint with \<open>sig_time = 999\<close> is then rejected, the registry
  is unchanged, and the score is the 0 that was passed in, not 100.\<close>

theorem older_announcement_score_counterexample:
  "fst (CheckInputsAndAdd scenario_env (scenario_mnb 1000) 0 scenario_node) = ADD_ADDED
   \<and> Find (snd (snd (CheckInputsAndAdd scenario_env (scenario_mnb 1000) 0 scenario_node)))
        (vin (scenario_mnb 999)) = Some (scenario_mnb 1000)
   \<and> mnb_CheckAndUpdate scenario_env (scenario_mnb 999) 0
        (snd (snd (CheckInputsAndAdd scenario_env (scenario_mnb 1000) 0 scenario_node)))
       = (MNB_BAD_SIGTIME, 0,
          snd (snd (CheckInputsAndAdd scenario_env (scenario_mnb 1000) 0 scenario_node)))
   \<and> fst (snd (mnb_CheckAndUpdate scenario_env (scenario_mnb 999) 0
        (snd (snd (CheckInputsAndAdd scenario_env (scenario_mnb 1000) 0 scenario_node)))))
       \<noteq> 100"
  by (simp add: scenario_defs CheckInputsAndAdd_def CheckInputsAndAdd_new_def
      mnb_CheckAndUpdate_def mnp_CheckAndUpdate_def Find_def Add_def Let_def
      CMasternode_copy_def mnb_Relay_def mnb_GetHash_def MASTERNODE_MIN_CONFIRMATIONS_def
      mnb_CheckSignature_def GetOldStrMessage_def GetStrMessage_def Height_def)

text \<open>Claim C4, amended: when an announcement arrives for an outpoint whose record already
  exists and the incoming \<open>sig_time\<close> is less than or equal to the existing record's
  \<open>sig_time\<close>, admission rejects it (returns false) and the state, the existing record
  included, is left unchanged; the rejection for the old \<open>sig_time\<close> assigns no misbehaviour
  score: when the announcement passes the checks that come first, the call leaves through
  the \<open>Bad sigTime\<close> return with \<^verbatim>\<open>nDos\<close> as the caller passed it.\<close>

theorem mnb_older_sigTime_rejected:
  assumes found: "Find st (vin mnb) = Some pmn" and older: "sigTime mnb \<le> sigTime pmn"
  shows "\<not> mnb_returns (fst (mnb_CheckAndUpdate e mnb nDos st))
    \<and> snd (snd (mnb_CheckAndUpdate e mnb nDos st)) = st
    \<and> (sigTime mnb \<le> GetAdjustedTime e + 60 * 60
        \<and> \<not> mnp_IsNull e (lastPing mnb)
        \<and> ping_returns (fst (mnp_CheckAndUpdate e (lastPing mnb) nDos False True st))
        \<and> ActiveProtocol e \<le> protocolVersion mnb
        \<and> ScriptForDestination_size e (pubKeyCollateralAddress mnb) = 25
        \<and> ScriptForDestination_size e (pubKeyMasternode mnb) = 25
        \<and> scriptSig (vin mnb) = []
        \<and> mnb_CheckSignature e mnb
        \<and> GetPort (addr mnb) = GetDefaultPort e
        \<longrightarrow> mnb_CheckAndUpdate e mnb nDos st = (MNB_BAD_SIGTIME, nDos, st))"
proof -
  obtain x d st' where p: "mnp_CheckAndUpdate e (lastPing mnb) nDos False True st = (x, d, st')"
    by (cases "mnp_CheckAndUpdate e (lastPing mnb) nDos False True st") auto
  from ping_sigTimeOnly [OF p] have st': "st' = st" and d: "ping_returns x \<longrightarrow> d = nDos"
    by auto
  show ?thesis
    using found older p st' d
    by (simp add: mnb_CheckAndUpdate_def)
qed

theorem mnb_older_sigTime_rejected_witness:
  "Find (store scenario_node scenario_vin (scenario_mnb 1000)) (vin (scenario_mnb 999))
     = Some (scenario_mnb 1000)
   \<and> sigTime (scenario_mnb 999) \<le> sigTime (scenario_mnb 1000)
   \<and> mnb_CheckAndUpdate scenario_env (scenario_mnb 999) 0
        (store scenario_node scenario_vin (scenario_mnb 1000))
       = (MNB_BAD_SIGTIME, 0, store scenario_node scenario_vin (scenario_mnb 1000))"
proof -
  let ?st = "store scenario_node scenario_vin (scenario_mnb 1000)"
  have found: "Find ?st (vin (scenario_mnb 999)) = Some (scenario_mnb 1000)"
    by (simp add: scenario_defs Find_def store_def)
  have older: "sigTime (scenario_mnb 999) \<le> sigTime (scenario_mnb 1000)"
    by (simp add: scenario_defs)
  have ping: "ping_returns (fst (mnp_CheckAndUpdate scenario_env (lastPing (scenario_mnb 999)) 0
                False True ?st))"
    by (simp add: scenario_defs mnp_CheckAndUpdate_def Find_def store_def Let_def)
  have pre: "sigTime (scenario_mnb 999) \<le> GetAdjustedTime scenario_env + 60 * 60
      \<and> \<not> mnp_IsNull scenario_env (lastPing (scenario_mnb 999))
      \<and> ActiveProtocol scenario_env \<le> protocolVersion (scenario_mnb 999)
      \<and> ScriptForDestination_size scenario_env (pubKeyCollateralAddress (scenario_mnb 999)) = 25
      \<and> ScriptForDestination_size scenario_env (pubKeyMasternode (scenario_mnb 999)) = 25
      \<and> scriptSig (vin (scenario_mnb 999)) = []
      \<and> mnb_CheckSignature scenario_env (scenario_mnb 999)
      \<and> GetPort (addr (scenario_mnb 999)) = GetDefaultPort scenario_env"
    by (simp add: scenario_defs mnb_CheckSignature_def GetOldStrMessage_def GetStrMessage_def)
  show ?thesis
    using found older ping pre
      mnb_older_sigTime_rejected [OF found older, of scenario_env 0]
    by blast
qed








lemma CheckInputsAndAdd_new_registry:
  assumes absent: "Find st0 (vin mnb) = None"
  shows "(fst (CheckInputsAndAdd_new e mnb d st0) = ADD_ADDED \<longrightarrow>
            Find (snd (snd (CheckInputsAndAdd_new e mnb d st0))) (vin mnb)
              = Some (CMasternode_copy mnb))
       \<and> (fst (CheckInputsAndAdd_new e mnb d st0) \<noteq> ADD_ADDED \<longrightarrow>
            \<not> add_returns (fst (CheckInputsAndAdd_new e mnb d st0))
          \<and> Find (snd (snd (CheckInputsAndAdd_new e mnb d st0))) (vin mnb) = None)
       \<and> (\<forall>k. k \<noteq> prevout (vin mnb) \<longrightarrow>
            vMasternodes (snd (snd (CheckInputsAndAdd_new e mnb d st0))) k = vMasternodes st0 k)"
  using absent
  by (simp add: CheckInputsAndAdd_new_def Let_def Find_def Add_def forget_seen_def mnb_Relay_def
      CMasternode_copy_def split: option.splits)

lemma CheckInputsAndAdd_new_added:
  "(fst (CheckInputsAndAdd_new e mnb d st0) = ADD_ADDED)
    = (lockMain e
       \<and> AcceptableInputs e (vin mnb) (collateral_output_value e) (pubKeyCollateralAddress mnb)
       \<and> MASTERNODE_MIN_CONFIRMATIONS \<le> GetCoinDepthAtHeight e (prevout (vin mnb)) (Height e)
       \<and> (case mapBlockIndex e (case GetTransaction e (prevout_hash (prevout (vin mnb))) of
                                   None \<Rightarrow> 0 | Some h \<Rightarrow> h) of
            None \<Rightarrow> True
          | Some pMNIndex \<Rightarrow>
              (case chainActive_at e (nHeight pMNIndex + MASTERNODE_MIN_CONFIRMATIONS - 1) of
                 None \<Rightarrow> False
               | Some pConfIndex \<Rightarrow> GetBlockTime pConfIndex \<le> sigTime mnb)))"
  by (simp add: CheckInputsAndAdd_new_def Let_def split: option.splits)


text \<open>Claim C9, as stated, has every non-\<open>Enabled\<close> record of the announcement's outpoint
  removed and replaced by a new record. Two inputs of the scenario, both with an \<open>Expired\<close>
  record in the registry, say otherwise. An announcement whose embedded ping carries a bad
  signature leaves through the ping check that comes before the registry lookup: the call
  returns false with score 33 and the \<open>Expired\<close> record is still in place. An announcement
  that passes that check while \<^verbatim>\<open>cs_main\<close> cannot be locked has the record removed and the
  call returns false: nothing is inserted, so the old record is removed, not replaced.\<close>

theorem CheckInputsAndAdd_not_enabled_counterexample:
  "Find (store scenario_node scenario_vin ((scenario_mnb 1000)\<lparr>activeState := MASTERNODE_EXPIRED\<rparr>))
        (vin (scenario_mnb 1500))
     = Some ((scenario_mnb 1000)\<lparr>activeState := MASTERNODE_EXPIRED\<rparr>)
   \<and> \<not> IsEnabled ((scenario_mnb 1000)\<lparr>activeState := MASTERNODE_EXPIRED\<rparr>)
   \<and> CheckInputsAndAdd scenario_env
        ((scenario_mnb 1500)\<lparr>lastPing := (scenario_ping 1900)\<lparr>mnp_vchSig := [9]\<rparr>\<rparr>) 0
        (store scenario_node scenario_vin ((scenario_mnb 1000)\<lparr>activeState := MASTERNODE_EXPIRED\<rparr>))
       = (ADD_BAD_PING, 33,
          store scenario_node scenario_vin ((scenario_mnb 1000)\<lparr>activeState := MASTERNODE_EXPIRED\<rparr>))
   \<and> fst (CheckInputsAndAdd (scenario_env\<lparr>lockMain := False\<rparr>) (scenario_mnb 1500) 0
        (store scenario_node scenario_vin ((scenario_mnb 1000)\<lparr>activeState := MASTERNODE_EXPIRED\<rparr>)))
       = ADD_LOCK_NOT_TAKEN
   \<and> Find (snd (snd (CheckInputsAndAdd (scenario_env\<lparr>lockMain := False\<rparr>) (scenario_mnb 1500) 0
        (store scenario_node scenario_vin
           ((scenario_mnb 1000)\<lparr>activeState := MASTERNODE_EXPIRED\<rparr>)))))
        (vin (scenario_mnb 1500)) = None"
  by (simp add: scenario_defs CheckInputsAndAdd_def CheckInputsAndAdd_new_def
      mnp_CheckAndUpdate_def Find_def Remove_def store_def Let_def IsEnabled_def
      forget_seen_def)

text \<open>Claim C9, amended: in \<^verbatim>\<open>CheckInputsAndAdd\<close>, when the announcement is not for the
  node's own active masternode, its embedded ping is not null and passes the timestamp-only
  check, and the registry holds a record for the announcement's outpoint that is not
  \<open>Enabled\<close>, the existing record is removed and admission continues with the collateral
  validation: the call ends in \<open>ADD_ADDED\<close> exactly when the validation passes (the lock is
  taken, the inputs are acceptable, the collateral has the minimum confirmations and the
  confirmation block is not younger than \<open>sig_time\<close>), and then the registry holds for that
  outpoint the brand-new record copied from the announcement; otherwise the call returns
  false and the registry holds no record for that outpoint. In neither case is the old
  record left in place, and no other outpoint's record changes.\<close>

theorem CheckInputsAndAdd_replaces_not_enabled:
  assumes notown: "\<not> (fMasterNode e \<and>
        (case activeMasternode_vin e of None \<Rightarrow> False
         | Some avin \<Rightarrow> prevout (vin mnb) = prevout avin) \<and>
        pubKeyMasternode mnb = activeMasternode_pubKeyMasternode e)"
    and notnull: "\<not> mnp_IsNull e (lastPing mnb)"
    and pingok: "ping_returns (fst (mnp_CheckAndUpdate e (lastPing mnb) nDoS False True st))"
    and found: "Find st (vin mnb) = Some pmn"
    and key: "prevout (vin pmn) = prevout (vin mnb)"
    and ne: "\<not> IsEnabled pmn"
  shows "(fst (CheckInputsAndAdd e mnb nDoS st) = ADD_ADDED \<longrightarrow>
            Find (snd (snd (CheckInputsAndAdd e mnb nDoS st))) (vin mnb)
              = Some (CMasternode_copy mnb))
       \<and> (fst (CheckInputsAndAdd e mnb nDoS st) \<noteq> ADD_ADDED \<longrightarrow>
            \<not> add_returns (fst (CheckInputsAndAdd e mnb nDoS st))
          \<and> Find (snd (snd (CheckInputsAndAdd e mnb nDoS st))) (vin mnb) = None)
       \<and> (\<forall>k. k \<noteq> prevout (vin mnb) \<longrightarrow>
            vMasternodes (snd (snd (CheckInputsAndAdd e mnb nDoS st))) k = vMasternodes st k)
       \<and> (fst (CheckInputsAndAdd e mnb nDoS st) = ADD_ADDED)
          = (lockMain e
             \<and> AcceptableInputs e (vin mnb) (collateral_output_value e)
                 (pubKeyCollateralAddress mnb)
             \<and> MASTERNODE_MIN_CONFIRMATIONS
                 \<le> GetCoinDepthAtHeight e (prevout (vin mnb)) (Height e)
             \<and> (case mapBlockIndex e
                        (case GetTransaction e (prevout_hash (prevout (vin mnb))) of
                           None \<Rightarrow> 0 | Some h \<Rightarrow> h) of
                  None \<Rightarrow> True
                | Some pMNIndex \<Rightarrow>
                    (case chainActive_at e
                            (nHeight pMNIndex + MASTERNODE_MIN_CONFIRMATIONS - 1) of
                       None \<Rightarrow> False
                     | Some pConfIndex \<Rightarrow> GetBlockTime pConfIndex \<le> sigTime mnb)))"
proof -
  obtain x d st' where p: "mnp_CheckAndUpdate e (lastPing mnb) nDoS False True st = (x, d, st')"
    by (cases "mnp_CheckAndUpdate e (lastPing mnb) nDoS False True st") auto
  from ping_sigTimeOnly [OF p] pingok p have st': "st' = st" and d: "d = nDoS" and x: "ping_returns x"
    by auto
  let ?st0 = "Remove st (vin pmn)"
  have eq: "CheckInputsAndAdd e mnb nDoS st = CheckInputsAndAdd_new e mnb nDoS ?st0"
    unfolding CheckInputsAndAdd_def if_not_P [OF notown]
    using notnull p st' d x found ne by simp
  have absent: "Find ?st0 (vin mnb) = None"
    using key by (simp add: Find_def Remove_def)
  have others: "\<forall>k. k \<noteq> prevout (vin mnb) \<longrightarrow> vMasternodes ?st0 k = vMasternodes st k"
    using key by (simp add: Remove_def)
  show ?thesis
    unfolding eq
    using CheckInputsAndAdd_new_registry [OF absent, of e nDoS]
      CheckInputsAndAdd_new_added [of e mnb nDoS ?st0] others
    by simp
qed

theorem CheckInputsAndAdd_replaces_not_enabled_witness:
  "Find (store scenario_node scenario_vin ((scenario_mnb 1000)\<lparr>activeState := MASTERNODE_EXPIRED\<rparr>))
        (vin (scenario_mnb 1500))
     = Some ((scenario_mnb 1000)\<lparr>activeState := MASTERNODE_EXPIRED\<rparr>)
   \<and> \<not> IsEnabled ((scenario_mnb 1000)\<lparr>activeState := MASTERNODE_EXPIRED\<rparr>)
   \<and> fst (CheckInputsAndAdd scenario_env (scenario_mnb 1500) 0
        (store scenario_node scenario_vin
           ((scenario_mnb 1000)\<lparr>activeState := MASTERNODE_EXPIRED\<rparr>))) = ADD_ADDED
   \<and> Find (snd (snd (CheckInputsAndAdd scenario_env (scenario_mnb 1500) 0
        (store scenario_node scenario_vin
           ((scenario_mnb 1000)\<lparr>activeState := MASTERNODE_EXPIRED\<rparr>)))))
        (vin (scenario_mnb 1500)) = Some (scenario_mnb 1500)"
proof -
  let ?old = "(scenario_mnb 1000)\<lparr>activeState := MASTERNODE_EXPIRED\<rparr>"
  let ?st = "store scenario_node scenario_vin ?old"
  have notown: "\<not> (fMasterNode scenario_env \<and>
        (case activeMasternode_vin scenario_env of None \<Rightarrow> False
         | Some avin \<Rightarrow> prevout (vin (scenario_mnb 1500)) = prevout avin) \<and>
        pubKeyMasternode (scenario_mnb 1500) = activeMasternode_pubKeyMasternode scenario_env)"
    by (simp add: scenario_env_def)
  have notnull: "\<not> mnp_IsNull scenario_env (lastPing (scenario_mnb 1500))"
    by (simp add: scenario_defs)
  have pingok: "ping_returns (fst (mnp_CheckAndUpdate scenario_env (lastPing (scenario_mnb 1500))
                   0 False True ?st))"
    by (simp add: scenario_defs mnp_CheckAndUpdate_def Find_def store_def Let_def)
  have found: "Find ?st (vin (scenario_mnb 1500)) = Some ?old"
    by (simp add: scenario_defs Find_def store_def)
  have key: "prevout (vin ?old) = prevout (vin (scenario_mnb 1500))"
    by (simp add: scenario_defs)
  have ne: "\<not> IsEnabled ?old"
    by (simp add: IsEnabled_def)
  have valid: "lockMain scenario_env
      \<and> AcceptableInputs scenario_env (vin (scenario_mnb 1500))
          (collateral_output_value scenario_env) (pubKeyCollateralAddress (scenario_mnb 1500))
      \<and> MASTERNODE_MIN_CONFIRMATIONS
          \<le> GetCoinDepthAtHeight scenario_env (prevout (vin (scenario_mnb 1500)))
               (Height scenario_env)
      \<and> (case mapBlockIndex scenario_env
                 (case GetTransaction scenario_env
                         (prevout_hash (prevout (vin (scenario_mnb 1500)))) of
                    None \<Rightarrow> 0 | Some h \<Rightarrow> h) of
           None \<Rightarrow> True
         | Some pMNIndex \<Rightarrow>
             (case chainActive_at scenario_env
                     (nHeight pMNIndex + MASTERNODE_MIN_CONFIRMATIONS - 1) of
                None \<Rightarrow> False
              | Some pConfIndex \<Rightarrow> GetBlockTime pConfIndex \<le> sigTime (scenario_mnb 1500)))"
    by (simp add: scenario_defs MASTERNODE_MIN_CONFIRMATIONS_def)
  have copy: "CMasternode_copy (scenario_mnb 1500) = scenario_mnb 1500"
    by (simp add: CMasternode_copy_def scenario_mnb_def)
  show ?thesis
    using found ne valid copy
      CheckInputsAndAdd_replaces_not_enabled [OF notown notnull pingok found key ne]
    by simp
qed

subsection \<open>Signing\<close>

lemma Sign_legacy:
  assumes "\<not> NetworkUpgradeActive_V2 e (Height e)"
  shows "Sign e key pubKey mnb =
    (case SignCompact e key
            (CHashWriter e [SER_string (strMessageMagic e),
               SER_string (GetOldStrMessage e
                 (mnb\<lparr>sigTime := GetAdjustedTime e, nMessVersion := MESS_VER_STRMESS\<rparr>))]) of
       None \<Rightarrow> (False, mnb\<lparr>sigTime := GetAdjustedTime e, nMessVersion := MESS_VER_STRMESS\<rparr>)
     | Some sig \<Rightarrow>
         (True, mnb\<lparr>sigTime := GetAdjustedTime e, nMessVersion := MESS_VER_STRMESS,
                    vchSig := sig\<rparr>))"
  using assms by (simp add: Sign_def Let_def split: option.splits)

lemma Sign_hash_verified:
  assumes "NetworkUpgradeActive_V2 e (Height e)" and "fst (Sign e key pubKey mnb)"
  shows "VerifyMessage e pubKey (vchSig (snd (Sign e key pubKey mnb)))
           (GetHex e (GetSignatureHash e (snd (Sign e key pubKey mnb))))
       \<and> nMessVersion (snd (Sign e key pubKey mnb)) = MESS_VER_HASH"
  using assms
  by (auto simp: Sign_def Let_def GetSignatureHash_def split: option.splits if_splits)

text \<open>Claim C8. Under the hash scheme \<^verbatim>\<open>Sign\<close> verifies what it signed (lemma
  \<open>Sign_hash_verified\<close>). Under the legacy scheme the source calls \<^verbatim>\<open>SignCompact\<close> and
  returns true without any verification (lemma \<open>Sign_legacy\<close>). In the scenario the legacy
  scheme is in force; signing with key \<open>[7]\<close> and the unrelated public key \<open>[9]\<close> returns
  true and stores the signature \<open>[7]\<close>, which does not verify under the supplied public
  key.\<close>

theorem Sign_legacy_accepts_unverifiable_signature:
  "fst (Sign scenario_env [7] [9] (scenario_mnb 1000)) = True
   \<and> nMessVersion (snd (Sign scenario_env [7] [9] (scenario_mnb 1000))) = MESS_VER_STRMESS
   \<and> vchSig (snd (Sign scenario_env [7] [9] (scenario_mnb 1000))) = [7]
   \<and> VerifyMessage scenario_env [9] (vchSig (snd (Sign scenario_env [7] [9] (scenario_mnb 1000))))
        (GetOldStrMessage scenario_env (snd (Sign scenario_env [7] [9] (scenario_mnb 1000))))
       = False"
  by (simp add: Sign_def scenario_env_def scenario_mnb_def Let_def Height_def)


end
